theory Spec2Isabelle
  imports Main "HOL-Library.Finite_Map" "HOL-Library.Word"
begin

section \<open>Paths\<close>

text \<open>
  A \<^verbatim>\<open>pathlib.Path\<close> is kept in parsed form: the directory it lies in and its final
  component. \<^verbatim>\<open>Path(parent, name)\<close> with a separator-free \<^verbatim>\<open>name\<close> is the constructor.
  One \<^typ>\<open>char\<close> stands for one character of a Python \<^verbatim>\<open>str\<close>.
\<close>

datatype path = Path (parent: string) (name: string)

text \<open>\<^verbatim>\<open>str.rfind\<close>: the index of the last occurrence, \<^verbatim>\<open>-1\<close> (here \<open>None\<close>) when there is none.\<close>

fun rfind :: "char \<Rightarrow> string \<Rightarrow> nat option" where
  "rfind c [] = None"
| "rfind c (x # xs) =
     (case rfind c xs of
        Some i \<Rightarrow> Some (Suc i)
      | None \<Rightarrow> if x = c then Some 0 else None)"

text \<open>
  \<^verbatim>\<open>Path.suffix\<close> and \<^verbatim>\<open>Path.stem\<close>: with \<^verbatim>\<open>i = name.rfind('.')\<close>, the name is cut at \<^verbatim>\<open>i\<close>
  when \<^verbatim>\<open>0 < i < len(name) - 1\<close>; otherwise the suffix is empty and the stem is the name.
\<close>

definition suffix :: "path \<Rightarrow> string" where
  "suffix p =
     (case rfind CHR ''.'' (name p) of
        None \<Rightarrow> []
      | Some i \<Rightarrow> if 0 < i \<and> i < length (name p) - 1 then drop i (name p) else [])"

definition stem :: "path \<Rightarrow> string" where
  "stem p =
     (case rfind CHR ''.'' (name p) of
        None \<Rightarrow> name p
      | Some i \<Rightarrow> if 0 < i \<and> i < length (name p) - 1 then take i (name p) else name p)"

datatype error =
    AssertionError
  | FileExistsError
  | FileNotFoundError
  | PdfReadError
  | IndexError
  | ValueError

text \<open>\<^verbatim>\<open>Path.with_suffix\<close>: a path with an empty name has no suffix to replace.\<close>

definition with_suffix :: "path \<Rightarrow> string \<Rightarrow> error + path" where
  "with_suffix p s =
     (if name p = [] then Inl ValueError else Inr (Path (parent p) (stem p @ s)))"

definition correct_pdf_path :: "path \<Rightarrow> error + path" where
  "correct_pdf_path file_path =
     (if suffix file_path = ''.pdf'' then Inr file_path else with_suffix file_path ''.pdf'')"

text \<open>The decimal rendering of a natural number, as an f-string field renders an \<^verbatim>\<open>int\<close>.\<close>

definition digit :: "nat \<Rightarrow> char" where
  "digit d = ''0123456789'' ! d"

fun str :: "nat \<Rightarrow> string" where
  "str n = (if n < 10 then [digit n] else str (n div 10) @ [digit (n mod 10)])"

declare str.simps [simp del]

section \<open>Documents and the file system\<close>

text \<open>
  The PDF engine is a black box that reads and writes page sequences. A page is what the
  canvas drew from a text, some content of an input document, or the result of merging a
  page onto another.
\<close>

datatype page =
    Drawn string
  | Content string
  | Merged page page

text \<open>
  A file system entry is a PDF document, or anything else (a directory, an empty file,
  bytes that do not parse as PDF).
\<close>

datatype entry = Pdf "page list" | Other

type_synonym filesystem = "(path, entry) fmap"

definition exists :: "filesystem \<Rightarrow> path \<Rightarrow> bool" where
  "exists fs p = (fmlookup fs p \<noteq> None)"

section \<open>Output path resolution\<close>

text \<open>
  The loop of \<^verbatim>\<open>ensure_new_file\<close>: while the path exists, the path is replaced by
  \<^verbatim>\<open>Path(file_path.parent, f"{file_path.stem}_{index}{file_path.suffix}")\<close>, built from
  the current path, and the index is incremented.
\<close>

function ensure_new_file_loop :: "filesystem \<Rightarrow> path \<Rightarrow> nat \<Rightarrow> path" where
  "ensure_new_file_loop fs file_path index =
     (if exists fs file_path
      then ensure_new_file_loop fs
             (Path (parent file_path) (stem file_path @ ''_'' @ str index @ suffix file_path))
             (index + 1)
      else file_path)"
  by pat_completeness auto

termination
proof (relation "measure (\<lambda>(fs, p, i). card {q \<in> fmdom' fs. length (name p) \<le> length (name q)})")
  show "wf (measure (\<lambda>(fs, p, i). card {q \<in> fmdom' fs. length (name p) \<le> length (name q)}))"
    by simp
next
  fix fs :: filesystem and file_path :: path and index :: nat
  assume ex: "exists fs file_path"
  let ?p' = "Path (parent file_path) (stem file_path @ ''_'' @ str index @ suffix file_path)"
  let ?S = "\<lambda>p. {q \<in> fmdom' fs. length (name p) \<le> length (name q)}"
  have "stem file_path @ suffix file_path = name file_path"
    by (simp add: stem_def suffix_def split: option.split)
  then have "length (name file_path) = length (stem file_path) + length (suffix file_path)"
    by (metis length_append)
  then have lt: "length (name file_path) < length (name ?p')"
    by simp
  have "file_path \<in> fmdom' fs"
    using ex by (simp add: exists_def fmdom'I fmlookup_dom'_iff)
  then have "file_path \<in> ?S file_path" by simp
  moreover have "file_path \<notin> ?S ?p'" using lt by simp
  moreover have "?S ?p' \<subseteq> ?S file_path" using lt by auto
  ultimately have "?S ?p' \<subset> ?S file_path" by blast
  moreover have "finite (?S file_path)" by simp
  ultimately have "card (?S ?p') < card (?S file_path)"
    by (rule psubset_card_mono [rotated])
  then show "((fs, ?p', index + 1), (fs, file_path, index))
      \<in> measure (\<lambda>(fs, p, i). card {q \<in> fmdom' fs. length (name p) \<le> length (name q)})"
    by simp
qed

declare ensure_new_file_loop.simps [simp del]

definition ensure_new_file :: "filesystem \<Rightarrow> path \<Rightarrow> path" where
  "ensure_new_file fs file_path = ensure_new_file_loop fs file_path 1"

section \<open>Temporary files\<close>

text \<open>
  What a run draws from its environment for one temporary file: the value of
  \<^verbatim>\<open>uuid.uuid4()\<close> and the random names that \<^verbatim>\<open>tempfile.mkstemp\<close> tries in turn.
\<close>

record entropy =
  uuid4 :: "128 word"
  candidates :: "string list"

definition hexdigit :: "nat \<Rightarrow> char" where
  "hexdigit d = ''0123456789abcdef'' ! d"

text \<open>The \<open>k\<close> lowest hexadecimal digits of \<open>v\<close>, most significant first.\<close>

fun hex_digits :: "nat \<Rightarrow> int \<Rightarrow> string" where
  "hex_digits k v =
     (if k = 0 then [] else hex_digits (k - 1) (v div 16) @ [hexdigit (nat (v mod 16))])"

declare hex_digits.simps [simp del]

text \<open>\<^verbatim>\<open>UUID.hex\<close>: the 128-bit value as 32 hexadecimal digits.\<close>

definition hex :: "128 word \<Rightarrow> string" where
  "hex u = hex_digits 32 (uint u)"

definition TMP_MAX :: nat where
  "TMP_MAX = 10000"

text \<open>
  The part of the operating system that the program only reads: the directory
  \<^verbatim>\<open>tempfile.gettempdir()\<close> returns and the directories that exist (the program creates
  files, never directories).
\<close>

record os_env =
  gettempdir :: string
  directories :: "string list"

text \<open>
  The file \<^verbatim>\<open>os.path.join(dir, base)\<close> for a relative \<^verbatim>\<open>base\<close>, in parsed form: a separator
  inside \<^verbatim>\<open>base\<close> puts the file into a subdirectory of \<^verbatim>\<open>dir\<close>.
\<close>

definition join :: "string \<Rightarrow> string \<Rightarrow> path" where
  "join dir base =
     (case rfind CHR ''/'' base of
        None \<Rightarrow> Path dir base
      | Some i \<Rightarrow> Path (dir @ ''/'' @ take i base) (drop (Suc i) base))"

text \<open>
  The loop of \<^verbatim>\<open>tempfile.mkstemp\<close> over the files it tries: an exclusive create in a
  directory that does not exist raises \<^verbatim>\<open>FileNotFoundError\<close>, a file that exists is skipped,
  and \<^verbatim>\<open>FileExistsError\<close> is raised when every file exists.
\<close>

fun mkstemp_inner :: "string list \<Rightarrow> filesystem \<Rightarrow> path list \<Rightarrow> error + path" where
  "mkstemp_inner dirs fs [] = Inl FileExistsError"
| "mkstemp_inner dirs fs (file # rest) =
     (if parent file \<notin> set dirs then Inl FileNotFoundError
      else if exists fs file then mkstemp_inner dirs fs rest
      else Inr file)"

text \<open>
  \<^verbatim>\<open>tempfile.mkstemp(suffix, prefix, dir)\<close>: tries up to \<^verbatim>\<open>TMP_MAX\<close> random names in
  \<^verbatim>\<open>dir/prefix+name+suffix\<close> and creates the first file that does not exist, empty.
\<close>

definition mkstemp ::
  "string list \<Rightarrow> string \<Rightarrow> string \<Rightarrow> string \<Rightarrow> string list \<Rightarrow> filesystem
     \<Rightarrow> (error + path) \<times> filesystem" where
  "mkstemp names suf pre dir dirs fs =
     (case mkstemp_inner dirs fs (map (\<lambda>n. join dir (pre @ n @ suf)) (take TMP_MAX names)) of
        Inl e \<Rightarrow> (Inl e, fs)
      | Inr file \<Rightarrow> (Inr file, fmupd file Other fs))"

section \<open>Reading documents\<close>

text \<open>
  \<^verbatim>\<open>open(path, "rb")\<close> followed by \<^verbatim>\<open>PdfFileReader\<close>: a missing file and an entry that is
  not a PDF document are errors.
\<close>

definition PdfFileReader :: "filesystem \<Rightarrow> path \<Rightarrow> error + page list" where
  "PdfFileReader fs p =
     (case fmlookup fs p of
        None \<Rightarrow> Inl FileNotFoundError
      | Some Other \<Rightarrow> Inl PdfReadError
      | Some (Pdf pages) \<Rightarrow> Inr pages)"

definition getNumPages :: "page list \<Rightarrow> nat" where
  "getNumPages pdf = length pdf"

definition getPage :: "page list \<Rightarrow> nat \<Rightarrow> error + page" where
  "getPage pdf i = (if i < length pdf then Inr (pdf ! i) else Inl IndexError)"

section \<open>The watermark renderer\<close>

definition MAX_TEXT_LENGTH :: nat where
  "MAX_TEXT_LENGTH = 28"

text \<open>
  \<^verbatim>\<open>create_watermark(text, output_file_path=None)\<close>. The assertion comes first. The page
  the canvas saves (A4, gray at 60% opacity, Helvetica 50, rotated by 45 degrees, the text
  centred at (500, 100)) is \<^term>\<open>Drawn text\<close>.
\<close>

definition create_watermark ::
  "string \<Rightarrow> path option \<Rightarrow> os_env \<Rightarrow> entropy \<Rightarrow> filesystem \<Rightarrow> (error + path) \<times> filesystem" where
  "create_watermark text output_file_path os rnd fs =
     (if \<not> length text < MAX_TEXT_LENGTH then (Inl AssertionError, fs)
      else
        case (case output_file_path of
                None \<Rightarrow>
                  (let unique_id = take 8 (hex (uuid4 rnd))
                   in mkstemp (candidates rnd) (''_'' @ unique_id @ ''.pdf'')
                        (''watermark_'' @ text) (gettempdir os) (directories os) fs)
              | Some given \<Rightarrow> (Inr given, fs)) of
          (Inl e, fs1) \<Rightarrow> (Inl e, fs1)
        | (Inr output_file_path, fs1) \<Rightarrow>
            (case correct_pdf_path output_file_path of
               Inl e \<Rightarrow> (Inl e, fs1)
             | Inr output_file_path \<Rightarrow>
                 (Inr output_file_path, fmupd output_file_path (Pdf [Drawn text]) fs1)))"

section \<open>The page replicator\<close>

text \<open>
  \<^verbatim>\<open>duplicate_watermark(watermark_path, page_count, output_file_path=None)\<close>: the
  watermark's page 0 is fetched once, before the loop, and added \<^verbatim>\<open>page_count\<close> times
  (\<^verbatim>\<open>range\<close> of a negative count is empty). The output is written while the watermark is
  still open for reading; the model reads first and writes then, which is what happens when
  the two paths differ. With no output path given they do: the output is a fresh temporary
  file.
\<close>

definition duplicate_watermark ::
  "path \<Rightarrow> int \<Rightarrow> path option \<Rightarrow> os_env \<Rightarrow> entropy \<Rightarrow> filesystem \<Rightarrow> (error + path) \<times> filesystem" where
  "duplicate_watermark watermark_path page_count output_file_path os rnd fs =
     (case (case output_file_path of
              None \<Rightarrow>
                (let unique_id = take 8 (hex (uuid4 rnd))
                 in mkstemp (candidates rnd) (''_'' @ unique_id @ ''.pdf'')
                      ''watermark_tmp'' (gettempdir os) (directories os) fs)
            | Some given \<Rightarrow> (Inr given, fs)) of
        (Inl e, fs1) \<Rightarrow> (Inl e, fs1)
      | (Inr output_file_path, fs1) \<Rightarrow>
          (case correct_pdf_path output_file_path of
             Inl e \<Rightarrow> (Inl e, fs1)
           | Inr output_file_path \<Rightarrow>
               (case PdfFileReader fs1 watermark_path of
                  Inl e \<Rightarrow> (Inl e, fs1)
                | Inr watermark_pdf \<Rightarrow>
                    (case getPage watermark_pdf 0 of
                       Inl e \<Rightarrow> (Inl e, fs1)
                     | Inr watermark_page \<Rightarrow>
                         (Inr output_file_path,
                          fmupd output_file_path
                            (Pdf (replicate (nat page_count) watermark_page)) fs1)))))"

section \<open>The overlay merger\<close>

text \<open>
  The page loop of \<^verbatim>\<open>add_watermark\<close> over the indices \<^verbatim>\<open>range(page_count)\<close>: input page
  \<^verbatim>\<open>i\<close> is merged with watermark page \<^verbatim>\<open>i\<close> and added to the output.
\<close>

fun merge_pages :: "page list \<Rightarrow> page list \<Rightarrow> nat list \<Rightarrow> error + page list" where
  "merge_pages input_pdf tmp_watermark_pdf [] = Inr []"
| "merge_pages input_pdf tmp_watermark_pdf (i # rest) =
     (case getPage input_pdf i of
        Inl e \<Rightarrow> Inl e
      | Inr pdf_page \<Rightarrow>
          (case getPage tmp_watermark_pdf i of
             Inl e \<Rightarrow> Inl e
           | Inr watermark_page \<Rightarrow>
               (case merge_pages input_pdf tmp_watermark_pdf rest of
                  Inl e \<Rightarrow> Inl e
                | Inr output \<Rightarrow> Inr (Merged pdf_page watermark_page # output))))"

text \<open>The first lines of \<^verbatim>\<open>add_watermark\<close>: the path the output will be written to.\<close>

definition new_file_path :: "filesystem \<Rightarrow> path \<Rightarrow> path" where
  "new_file_path fs input_file_path =
     ensure_new_file fs
       (Path (parent input_file_path) (stem input_file_path @ ''_watermarked.pdf''))"

text \<open>
  \<^verbatim>\<open>add_watermark(input_file_path, watermark_file_path)\<close>. The output path is resolved
  first; the output is written last, after the replicated watermark was written to its
  temporary file and read back.
\<close>

definition add_watermark ::
  "path \<Rightarrow> path \<Rightarrow> os_env \<Rightarrow> entropy \<Rightarrow> filesystem \<Rightarrow> (error + unit) \<times> filesystem" where
  "add_watermark input_file_path watermark_file_path os rnd fs =
     (let new_file = new_file_path fs input_file_path
      in case PdfFileReader fs input_file_path of
           Inl e \<Rightarrow> (Inl e, fs)
         | Inr input_pdf \<Rightarrow>
             (let page_count = getNumPages input_pdf
              in case duplicate_watermark watermark_file_path (int page_count) None os rnd fs of
                   (Inl e, fs1) \<Rightarrow> (Inl e, fs1)
                 | (Inr tmp_watermark_file_path, fs1) \<Rightarrow>
                     (case PdfFileReader fs1 tmp_watermark_file_path of
                        Inl e \<Rightarrow> (Inl e, fs1)
                      | Inr tmp_watermark_pdf \<Rightarrow>
                          (case merge_pages input_pdf tmp_watermark_pdf [0..<page_count] of
                             Inl e \<Rightarrow> (Inl e, fs1)
                           | Inr output \<Rightarrow> (Inr (), fmupd new_file (Pdf output) fs1)))))"

section \<open>The driver\<close>

text \<open>
  The parsed command line: \<open>None\<close> is a flag that was not given, \<open>Some []\<close> a flag given
  with no arguments. The entries of \<^verbatim>\<open>-f\<close> are kept as paths, so that \<^verbatim>\<open>Path(f).name\<close> is
  \<^term>\<open>name f\<close>.
\<close>

record args =
  watermark_text :: string
  input_files :: "path list option"
  exclude :: "string list option"

text \<open>
  The selection of the files to process. \<open>cwd_pdfs\<close> is what \<^verbatim>\<open>cwd.glob("*.pdf")\<close> yields.
  In the second branch \<^verbatim>\<open>args.input_files\<close> is the list \<open>file_list\<close> was bound to.
\<close>

definition select_files :: "args \<Rightarrow> path list \<Rightarrow> path list" where
  "select_files a cwd_pdfs =
     (let exclude_list = (case exclude a of None \<Rightarrow> [] | Some xs \<Rightarrow> xs);
          file_list = (case input_files a of None \<Rightarrow> [] | Some fl \<Rightarrow> fl)
      in if file_list = []
         then [f \<leftarrow> cwd_pdfs. name f \<notin> set exclude_list]
         else [f \<leftarrow> file_list. name f \<notin> set exclude_list])"

datatype message = Processing path | AllDone

record world =
  files :: filesystem
  logged :: "message list"

text \<open>
  The loop of \<^verbatim>\<open>main\<close> over the selected files; an exception ends it. File number \<open>k\<close> of
  the run draws \<open>rnd k\<close>.
\<close>

fun process_files ::
  "path \<Rightarrow> os_env \<Rightarrow> (nat \<Rightarrow> entropy) \<Rightarrow> path list \<Rightarrow> nat \<Rightarrow> world \<Rightarrow> (error + unit) \<times> world" where
  "process_files watermark_file_path os rnd [] k w = (Inr (), w)"
| "process_files watermark_file_path os rnd (input_file # rest) k w =
     (let w1 = w\<lparr>logged := logged w @ [Processing input_file]\<rparr>
      in case add_watermark input_file watermark_file_path os (rnd k) (files w1) of
           (Inl e, fs') \<Rightarrow> (Inl e, w1\<lparr>files := fs'\<rparr>)
         | (Inr u, fs') \<Rightarrow>
             process_files watermark_file_path os rnd rest (Suc k) (w1\<lparr>files := fs'\<rparr>))"

definition main ::
  "args \<Rightarrow> path list \<Rightarrow> os_env \<Rightarrow> (nat \<Rightarrow> entropy) \<Rightarrow> world \<Rightarrow> (error + unit) \<times> world" where
  "main a cwd_pdfs os rnd w =
     (let file_list = select_files a cwd_pdfs
      in case create_watermark (watermark_text a) None os (rnd 0) (files w) of
           (Inl e, fs1) \<Rightarrow> (Inl e, w\<lparr>files := fs1\<rparr>)
         | (Inr watermark_file_path, fs1) \<Rightarrow>
             (case process_files watermark_file_path os rnd file_list 1 (w\<lparr>files := fs1\<rparr>) of
                (Inl e, w') \<Rightarrow> (Inl e, w')
              | (Inr u, w') \<Rightarrow> (Inr (), w'\<lparr>logged := logged w' @ [AllDone]\<rparr>)))"

section \<open>Vocabulary for the properties\<close>

text \<open>
  \<open>grows fs fs'\<close>: every entry of \<open>fs\<close> is still there in \<open>fs'\<close>, unchanged.
\<close>

definition grows :: "filesystem \<Rightarrow> filesystem \<Rightarrow> bool" where
  "grows fs fs' = (\<forall>q. exists fs q \<longrightarrow> fmlookup fs' q = fmlookup fs q)"

text \<open>
  \<open>tmp_allocated os rnd pre fs f\<close>: in the file system \<open>fs\<close>, \<^verbatim>\<open>tempfile.mkstemp\<close> called with
  the prefix \<open>pre\<close> and the suffix \<^verbatim>\<open>f"_{unique_id}.pdf"\<close> allocates the file \<open>f\<close>.
\<close>

definition tmp_allocated :: "os_env \<Rightarrow> entropy \<Rightarrow> string \<Rightarrow> filesystem \<Rightarrow> path \<Rightarrow> bool" where
  "tmp_allocated os rnd pre fs f =
     (fst (mkstemp (candidates rnd) (''_'' @ take 8 (hex (uuid4 rnd)) @ ''.pdf'') pre
             (gettempdir os) (directories os) fs) = Inr f)"

section \<open>Names: stems, suffixes and separators\<close>

lemma stem_suffix: "stem p @ suffix p = name p"
  by (simp add: stem_def suffix_def split: option.split)

lemma rfind_notin: "c \<notin> set xs \<Longrightarrow> rfind c xs = None"
  by (induction xs) auto

lemma rfind_append_notin: "c \<notin> set ys \<Longrightarrow> rfind c (xs @ ys) = rfind c xs"
  by (induction xs) (auto simp: rfind_notin split: option.splits)

lemma rfind_last: "c \<notin> set ys \<Longrightarrow> rfind c (xs @ c # ys) = Some (length xs)"
  by (induction xs) (auto simp: rfind_notin)

lemma rfind_Some_lt: "rfind c xs = Some i \<Longrightarrow> i < length xs \<and> xs ! i = c"
  by (induction xs arbitrary: i) (auto split: option.splits if_splits)

lemma suffix_pdf: "x \<noteq> [] \<Longrightarrow> suffix (Path d (x @ ''.pdf'')) = ''.pdf''"
  using rfind_last [of "CHR ''.''" "''pdf''" x] by (simp add: suffix_def)

lemma stem_pdf: "x \<noteq> [] \<Longrightarrow> stem (Path d (x @ ''.pdf'')) = x"
  using rfind_last [of "CHR ''.''" "''pdf''" x] by (simp add: stem_def)

lemma suffix_shape: "suffix p = [] \<or> (\<exists>r. suffix p = CHR ''.'' # r)"
proof (cases "rfind CHR ''.'' (name p)")
  case None
  then show ?thesis by (simp add: suffix_def)
next
  case (Some i)
  then have "i < length (name p)" "name p ! i = CHR ''.''"
    using rfind_Some_lt by blast+
  then have "drop i (name p) = CHR ''.'' # drop (Suc i) (name p)"
    by (metis Cons_nth_drop_Suc)
  with Some show ?thesis by (simp add: suffix_def)
qed

section \<open>The resolver\<close>

lemma ensure_loop_not_exists: "\<not> exists fs (ensure_new_file_loop fs p i)"
  by (induction fs p i rule: ensure_new_file_loop.induct)
     (subst ensure_new_file_loop.simps, simp)

lemma ensure_loop_parent: "parent (ensure_new_file_loop fs p i) = parent p"
  by (induction fs p i rule: ensure_new_file_loop.induct)
     (subst ensure_new_file_loop.simps, simp)

lemma ensure_loop_free: "\<not> exists fs p \<Longrightarrow> ensure_new_file_loop fs p i = p"
  by (subst ensure_new_file_loop.simps) simp

section \<open>Files are only added\<close>

lemma grows_refl: "grows fs fs"
  by (simp add: grows_def)

lemma grows_trans: "grows a b \<Longrightarrow> grows b c \<Longrightarrow> grows a c"
  by (auto simp: grows_def exists_def)

lemma grows_fresh: "\<not> exists fs p \<Longrightarrow> grows fs (fmupd p e fs)"
  by (auto simp: grows_def)

lemma grows_exists: "grows fs fs' \<Longrightarrow> exists fs q \<Longrightarrow> exists fs' q"
  by (auto simp: grows_def exists_def)

section \<open>Temporary file allocation\<close>

lemma mkstemp_inner_Inr:
  "mkstemp_inner dirs fs ps = Inr f \<Longrightarrow> f \<in> set ps \<and> \<not> exists fs f \<and> parent f \<in> set dirs"
  by (induction ps) (auto split: if_splits)

lemma mkstemp_Inr:
  assumes "mkstemp names suf pre dir dirs fs = (Inr f, fs')"
  shows "fs' = fmupd f Other fs" and "\<not> exists fs f" and "\<exists>n. f = join dir (pre @ n @ suf)"
    and "parent f \<in> set dirs"
proof -
  from assms obtain g where
    g: "mkstemp_inner dirs fs (map (\<lambda>n. join dir (pre @ n @ suf)) (take TMP_MAX names)) = Inr g"
    by (auto simp: mkstemp_def split: sum.splits)
  with assms have fg: "f = g" and "fs' = fmupd f Other fs"
    by (auto simp: mkstemp_def)
  then show "fs' = fmupd f Other fs" by simp
  from mkstemp_inner_Inr [OF g] fg show "\<not> exists fs f" and "parent f \<in> set dirs"
    and "\<exists>n. f = join dir (pre @ n @ suf)" by auto
qed

lemma mkstemp_Inl: "mkstemp names suf pre dir dirs fs = (Inl e, fs') \<Longrightarrow> fs' = fs"
  by (auto simp: mkstemp_def split: sum.splits)

lemma length_hex_digits: "length (hex_digits k v) = k"
  by (induction k v rule: hex_digits.induct) (subst hex_digits.simps, simp)

lemma hexdigit_no_sep: "d < 16 \<Longrightarrow> hexdigit d \<noteq> CHR ''/''"
proof -
  assume "d < 16"
  then have "hexdigit d \<in> set ''0123456789abcdef''"
    unfolding hexdigit_def by (intro nth_mem) simp
  then show ?thesis by auto
qed

lemma hex_digits_no_sep: "CHR ''/'' \<notin> set (hex_digits k v)"
proof (induction k v rule: hex_digits.induct)
  case (1 k v)
  have "nat (v mod 16) < 16" by simp
  then have "hexdigit (nat (v mod 16)) \<noteq> CHR ''/''" by (rule hexdigit_no_sep)
  with 1 show ?case by (subst hex_digits.simps) auto
qed

lemma unique_id_length: "length (take 8 (hex u)) = 8"
  by (simp add: hex_def length_hex_digits)

lemma unique_id_no_sep: "CHR ''/'' \<notin> set (take 8 (hex u))"
  using hex_digits_no_sep [of 32 "uint u"] by (auto simp: hex_def dest: in_set_takeD)

lemma join_name:
  assumes "CHR ''/'' \<notin> set s"
  shows "\<exists>x. name (join dir (b @ s)) = x @ s"
proof (cases "rfind CHR ''/'' b")
  case None
  with assms show ?thesis by (auto simp: join_def rfind_append_notin)
next
  case (Some i)
  then have "i < length b" using rfind_Some_lt by blast
  with Some assms show ?thesis by (auto simp: join_def rfind_append_notin)
qed


lemma tmp_name_shape:
  "\<exists>x. name (join dir (pre @ n @ ''_'' @ take 8 (hex u) @ ''.pdf''))
         = x @ ''_'' @ take 8 (hex u) @ ''.pdf''"
proof -
  have "CHR ''/'' \<notin> set (''_'' @ take 8 (hex u) @ ''.pdf'')"
    using unique_id_no_sep [of u] by simp
  from join_name [OF this, of dir "pre @ n"] show ?thesis by simp
qed

lemma tmp_suffix: "name f = x @ ''_'' @ u @ ''.pdf'' \<Longrightarrow> suffix f = ''.pdf''"
  using suffix_pdf [of "x @ ''_'' @ u" "parent f"] by (cases f) simp

lemma tmp_correct: "name f = x @ ''_'' @ u @ ''.pdf'' \<Longrightarrow> correct_pdf_path f = Inr f"
  by (simp add: correct_pdf_path_def tmp_suffix)

lemma mkstemp_tmp:
  assumes "mkstemp names (''_'' @ take 8 (hex u) @ ''.pdf'') pre dir dirs fs = (Inr f, fs1)"
  shows "fs1 = fmupd f Other fs" and "\<not> exists fs f"
    and "\<exists>x. name f = x @ ''_'' @ take 8 (hex u) @ ''.pdf''"
    and "correct_pdf_path f = Inr f"
proof -
  from mkstemp_Inr [OF assms] show "fs1 = fmupd f Other fs" and "\<not> exists fs f" by auto
  from mkstemp_Inr(3) [OF assms] obtain n
    where "f = join dir (pre @ n @ ''_'' @ take 8 (hex u) @ ''.pdf'')" by auto
  with tmp_name_shape [of dir pre n u]
  show sh: "\<exists>x. name f = x @ ''_'' @ take 8 (hex u) @ ''.pdf''" by simp
  then show "correct_pdf_path f = Inr f" using tmp_correct by blast
qed

section \<open>Renderer, replicator and merger: what a call does\<close>

lemma create_watermark_too_long:
  "\<not> length t < 28 \<Longrightarrow> create_watermark t None os rnd fs = (Inl AssertionError, fs)"
  by (simp add: create_watermark_def MAX_TEXT_LENGTH_def)

lemma create_watermark_ok:
  assumes "length t < 28"
    and "mkstemp (candidates rnd) (''_'' @ take 8 (hex (uuid4 rnd)) @ ''.pdf'') (''watermark_'' @ t)
           (gettempdir os) (directories os) fs = (Inr f, fs1)"
  shows "create_watermark t None os rnd fs = (Inr f, fmupd f (Pdf [Drawn t]) fs)"
  using assms(1) mkstemp_tmp(1,4) [OF assms(2)] assms(2)
  by (simp add: create_watermark_def MAX_TEXT_LENGTH_def Let_def)

lemma create_watermark_fail:
  assumes "length t < 28"
    and "mkstemp (candidates rnd) (''_'' @ take 8 (hex (uuid4 rnd)) @ ''.pdf'') (''watermark_'' @ t)
           (gettempdir os) (directories os) fs = (Inl e, fs1)"
  shows "create_watermark t None os rnd fs = (Inl e, fs)"
  using assms mkstemp_Inl [OF assms(2)]
  by (simp add: create_watermark_def MAX_TEXT_LENGTH_def Let_def)

lemma create_watermark_cases:
  assumes "create_watermark t None os rnd fs = (r, fs')"
  shows "(\<exists>e. r = Inl e \<and> fs' = fs) \<or>
         (\<exists>f x. r = Inr f \<and> \<not> exists fs f \<and> fs' = fmupd f (Pdf [Drawn t]) fs \<and>
                name f = x @ ''_'' @ take 8 (hex (uuid4 rnd)) @ ''.pdf'' \<and> length t < 28)"
proof (cases "length t < 28")
  case False
  with assms create_watermark_too_long [OF False, of os rnd fs] show ?thesis by auto
next
  case True
  obtain m fs1 where m: "mkstemp (candidates rnd) (''_'' @ take 8 (hex (uuid4 rnd)) @ ''.pdf'')
      (''watermark_'' @ t) (gettempdir os) (directories os) fs = (m, fs1)"
    by (cases "mkstemp (candidates rnd) (''_'' @ take 8 (hex (uuid4 rnd)) @ ''.pdf'')
      (''watermark_'' @ t) (gettempdir os) (directories os) fs") auto
  show ?thesis
  proof (cases m)
    case (Inl e)
    with create_watermark_fail [OF True] m assms show ?thesis by auto
  next
    case (Inr f)
    with m have m': "mkstemp (candidates rnd) (''_'' @ take 8 (hex (uuid4 rnd)) @ ''.pdf'')
      (''watermark_'' @ t) (gettempdir os) (directories os) fs = (Inr f, fs1)" by simp
    from create_watermark_ok [OF True m'] assms mkstemp_tmp(2,3) [OF m'] True
    show ?thesis by auto
  qed
qed


lemma PdfFileReader_Inr: "PdfFileReader fs p = Inr pages \<longleftrightarrow> fmlookup fs p = Some (Pdf pages)"
  by (auto simp: PdfFileReader_def split: option.splits entry.splits)

lemma PdfFileReader_exists: "PdfFileReader fs p = Inr pages \<Longrightarrow> exists fs p"
  by (simp add: PdfFileReader_Inr exists_def)

lemma getPage_0: "getPage pdf 0 = Inr w \<longleftrightarrow> (\<exists>ws. pdf = w # ws)"
  by (cases pdf) (auto simp: getPage_def)

lemma duplicate_watermark_ok:
  assumes m: "mkstemp (candidates rnd) (''_'' @ take 8 (hex (uuid4 rnd)) @ ''.pdf'') ''watermark_tmp''
           (gettempdir os) (directories os) fs = (Inr f, fs1)"
    and wm: "fmlookup fs wm = Some (Pdf (w # ws))"
  shows "duplicate_watermark wm n None os rnd fs
           = (Inr f, fmupd f (Pdf (replicate (nat n) w)) fs)"
proof -
  from mkstemp_tmp [OF m] have fs1: "fs1 = fmupd f Other fs" and fresh: "\<not> exists fs f"
    and c: "correct_pdf_path f = Inr f" by auto
  from fresh wm have "f \<noteq> wm" by (auto simp: exists_def)
  with wm fs1 have "PdfFileReader fs1 wm = Inr (w # ws)" by (simp add: PdfFileReader_Inr)
  moreover have "getPage (w # ws) 0 = Inr w" by (simp add: getPage_0)
  ultimately show ?thesis using m c fs1
    by (simp add: duplicate_watermark_def Let_def)
qed

lemma duplicate_watermark_cases:
  assumes "duplicate_watermark wm n None os rnd fs = (r, fs')"
  shows "(\<exists>e. r = Inl e \<and> grows fs fs') \<or>
         (\<exists>f x w ws. r = Inr f \<and> \<not> exists fs f \<and>
            name f = x @ ''_'' @ take 8 (hex (uuid4 rnd)) @ ''.pdf'' \<and>
            fmlookup fs wm = Some (Pdf (w # ws)) \<and>
            fs' = fmupd f (Pdf (replicate (nat n) w)) fs)"
proof -
  obtain m fs1 where m: "mkstemp (candidates rnd) (''_'' @ take 8 (hex (uuid4 rnd)) @ ''.pdf'')
      ''watermark_tmp'' (gettempdir os) (directories os) fs = (m, fs1)"
    by (cases "mkstemp (candidates rnd) (''_'' @ take 8 (hex (uuid4 rnd)) @ ''.pdf'')
      ''watermark_tmp'' (gettempdir os) (directories os) fs") auto
  show ?thesis
  proof (cases m)
    case (Inl e)
    with m have "fs1 = fs" using mkstemp_Inl by blast
    with Inl m assms show ?thesis
      by (auto simp: duplicate_watermark_def Let_def grows_refl)
  next
    case (Inr f)
    with m have m': "mkstemp (candidates rnd) (''_'' @ take 8 (hex (uuid4 rnd)) @ ''.pdf'')
      ''watermark_tmp'' (gettempdir os) (directories os) fs = (Inr f, fs1)" by simp
    from mkstemp_tmp [OF m'] obtain x where fs1: "fs1 = fmupd f Other fs"
      and fresh: "\<not> exists fs f"
      and nm: "name f = x @ ''_'' @ take 8 (hex (uuid4 rnd)) @ ''.pdf''"
      and c: "correct_pdf_path f = Inr f" by auto
    have g1: "grows fs fs1" using fs1 fresh by (simp add: grows_fresh)
    show ?thesis
    proof (cases "\<exists>w ws. fmlookup fs1 wm = Some (Pdf (w # ws))")
      case True
      then obtain w ws where l1: "fmlookup fs1 wm = Some (Pdf (w # ws))" by auto
      with fs1 have ne: "f \<noteq> wm" by auto
      with l1 fs1 have l: "fmlookup fs wm = Some (Pdf (w # ws))" by simp
      from duplicate_watermark_ok [OF m' l, of n] assms fresh nm l show ?thesis by auto
    next
      case False
      then have "\<And>pages w. PdfFileReader fs1 wm = Inr pages \<Longrightarrow> getPage pages 0 \<noteq> Inr w"
        by (auto simp: PdfFileReader_Inr getPage_0)
      with m' c assms g1 show ?thesis
        by (auto simp: duplicate_watermark_def Let_def split: sum.splits)
    qed
  qed
qed

lemma merge_pages_ok:
  "\<lbrakk>\<And>i. i \<in> set idx \<Longrightarrow> i < length a \<and> i < length b\<rbrakk> \<Longrightarrow>
     merge_pages a b idx = Inr (map (\<lambda>i. Merged (a ! i) (b ! i)) idx)"
  by (induction idx) (auto simp: getPage_def)

lemma merge_pages_replicate:
  "merge_pages pages (replicate (length pages) w) [0..<length pages]
     = Inr (map (\<lambda>p. Merged p w) pages)"
proof -
  have "merge_pages pages (replicate (length pages) w) [0..<length pages]
      = Inr (map (\<lambda>i. Merged (pages ! i) (replicate (length pages) w ! i)) [0..<length pages])"
    by (rule merge_pages_ok) simp
  also have "map (\<lambda>i. Merged (pages ! i) (replicate (length pages) w ! i)) [0..<length pages]
      = map (\<lambda>p. Merged p w) pages"
    by (rule nth_equalityI) auto
  finally show ?thesis .
qed

lemma add_watermark_ok:
  assumes m: "mkstemp (candidates rnd) (''_'' @ take 8 (hex (uuid4 rnd)) @ ''.pdf'') ''watermark_tmp''
           (gettempdir os) (directories os) fs = (Inr f, fs1)"
    and wm: "fmlookup fs wm = Some (Pdf (w # ws))"
    and inp: "fmlookup fs inp = Some (Pdf pages)"
  shows "add_watermark inp wm os rnd fs
           = (Inr (), fmupd (new_file_path fs inp) (Pdf (map (\<lambda>p. Merged p w) pages))
                        (fmupd f (Pdf (replicate (length pages) w)) fs))"
proof -
  have "PdfFileReader fs inp = Inr pages" using inp by (simp add: PdfFileReader_Inr)
  moreover have "duplicate_watermark wm (int (length pages)) None os rnd fs
      = (Inr f, fmupd f (Pdf (replicate (length pages) w)) fs)"
    using duplicate_watermark_ok [OF m wm, of "int (length pages)"] by simp
  moreover have "PdfFileReader (fmupd f (Pdf (replicate (length pages) w)) fs) f
      = Inr (replicate (length pages) w)"
    by (simp add: PdfFileReader_Inr)
  ultimately show ?thesis
    by (simp add: add_watermark_def Let_def getNumPages_def merge_pages_replicate)
qed

lemma add_watermark_cases:
  assumes "add_watermark inp wm os rnd fs = (r, fs')"
  shows "(\<exists>e. r = Inl e \<and> grows fs fs') \<or>
         (\<exists>f x w ws pages. r = Inr () \<and> \<not> exists fs f \<and>
            name f = x @ ''_'' @ take 8 (hex (uuid4 rnd)) @ ''.pdf'' \<and>
            fmlookup fs wm = Some (Pdf (w # ws)) \<and>
            fmlookup fs inp = Some (Pdf pages) \<and>
            fs' = fmupd (new_file_path fs inp) (Pdf (map (\<lambda>p. Merged p w) pages))
                    (fmupd f (Pdf (replicate (length pages) w)) fs))"
proof (cases "PdfFileReader fs inp")
  case (Inl e)
  with assms show ?thesis by (auto simp: add_watermark_def Let_def grows_refl)
next
  case (Inr pages)
  then have inp: "fmlookup fs inp = Some (Pdf pages)" by (simp add: PdfFileReader_Inr)
  obtain d fs1 where d: "duplicate_watermark wm (int (length pages)) None os rnd fs = (d, fs1)"
    by (cases "duplicate_watermark wm (int (length pages)) None os rnd fs") auto
  from duplicate_watermark_cases [OF d] show ?thesis
  proof
    assume "\<exists>e. d = Inl e \<and> grows fs fs1"
    with Inr d assms show ?thesis by (auto simp: add_watermark_def Let_def getNumPages_def)
  next
    assume "\<exists>f x w ws. d = Inr f \<and> \<not> exists fs f \<and>
            name f = x @ ''_'' @ take 8 (hex (uuid4 rnd)) @ ''.pdf'' \<and>
            fmlookup fs wm = Some (Pdf (w # ws)) \<and>
            fs1 = fmupd f (Pdf (replicate (nat (int (length pages))) w)) fs"
    then obtain f x w ws where df: "d = Inr f" and fresh: "\<not> exists fs f"
      and nm: "name f = x @ ''_'' @ take 8 (hex (uuid4 rnd)) @ ''.pdf''"
      and wm: "fmlookup fs wm = Some (Pdf (w # ws))"
      and fs1: "fs1 = fmupd f (Pdf (replicate (length pages) w)) fs" by auto
    have "PdfFileReader fs1 f = Inr (replicate (length pages) w)"
      using fs1 by (simp add: PdfFileReader_Inr)
    with Inr d df fs1 assms have "r = Inr ()" and
      "fs' = fmupd (new_file_path fs inp) (Pdf (map (\<lambda>p. Merged p w) pages)) fs1"
      by (auto simp: add_watermark_def Let_def getNumPages_def merge_pages_replicate)
    with fresh nm wm inp fs1 show ?thesis by auto
  qed
qed

lemma new_file_path_fresh: "\<not> exists fs (new_file_path fs inp)"
  by (simp add: new_file_path_def ensure_new_file_def ensure_loop_not_exists)

lemma add_watermark_grows:
  assumes "add_watermark inp wm os rnd fs = (r, fs')"
  shows "grows fs fs'"
  using add_watermark_cases [OF assms]
proof
  assume "\<exists>e. r = Inl e \<and> grows fs fs'" then show ?thesis by auto
next
  assume "\<exists>f x w ws pages. r = Inr () \<and> \<not> exists fs f \<and>
            name f = x @ ''_'' @ take 8 (hex (uuid4 rnd)) @ ''.pdf'' \<and>
            fmlookup fs wm = Some (Pdf (w # ws)) \<and>
            fmlookup fs inp = Some (Pdf pages) \<and>
            fs' = fmupd (new_file_path fs inp) (Pdf (map (\<lambda>p. Merged p w) pages))
                    (fmupd f (Pdf (replicate (length pages) w)) fs)"
  then obtain f e1 e2 where "\<not> exists fs f" and
    "fs' = fmupd (new_file_path fs inp) e1 (fmupd f e2 fs)" by blast
  with new_file_path_fresh [of fs inp] show ?thesis
    by (auto simp: grows_def exists_def)
qed

section \<open>Output names\<close>

lemma ensure_loop_name:
  "name p = s @ ''.pdf'' \<Longrightarrow> s \<noteq> [] \<Longrightarrow>
     \<exists>B. name (ensure_new_file_loop fs p i) = s @ B @ ''.pdf''"
proof (induction fs p i arbitrary: s rule: ensure_new_file_loop.induct)
  case (1 fs file_path index)
  show ?case
  proof (cases "exists fs file_path")
    case False
    with 1(2) show ?thesis by (subst ensure_new_file_loop.simps) simp
  next
    case True
    let ?p' = "Path (parent file_path) (stem file_path @ ''_'' @ str index @ suffix file_path)"
    have fp: "file_path = Path (parent file_path) (s @ ''.pdf'')"
      using 1(2) by (cases file_path) simp
    have st: "stem file_path = s" using stem_pdf [OF 1(3)] fp by metis
    have su: "suffix file_path = ''.pdf''" using suffix_pdf [OF 1(3)] fp by metis
    have "name ?p' = (s @ ''_'' @ str index) @ ''.pdf''" by (simp add: st su)
    moreover have "s @ ''_'' @ str index \<noteq> []" by simp
    ultimately obtain B where
      "name (ensure_new_file_loop fs ?p' (index + 1)) = (s @ ''_'' @ str index) @ B @ ''.pdf''"
      using 1(1) [OF True] by blast
    with True show ?thesis by (subst ensure_new_file_loop.simps) simp
  qed
qed

lemma new_file_path_name:
  "\<exists>B. name (new_file_path fs inp) = stem inp @ ''_watermarked'' @ B @ ''.pdf''"
  using ensure_loop_name [of "Path (parent inp) (stem inp @ ''_watermarked.pdf'')"
      "stem inp @ ''_watermarked''" fs 1]
  by (simp add: new_file_path_def ensure_new_file_def)

lemma new_file_path_parent: "parent (new_file_path fs inp) = parent inp"
  by (simp add: new_file_path_def ensure_new_file_def ensure_loop_parent)

lemma new_file_path_differs: "new_file_path fs inp \<noteq> inp"
proof
  assume eq: "new_file_path fs inp = inp"
  obtain B where "name (new_file_path fs inp) = stem inp @ ''_watermarked'' @ B @ ''.pdf''"
    using new_file_path_name by blast
  with eq have "stem inp @ suffix inp = stem inp @ ''_watermarked'' @ B @ ''.pdf''"
    by (simp add: stem_suffix)
  then have "suffix inp = ''_watermarked'' @ B @ ''.pdf''" by simp
  with suffix_shape [of inp] show False by auto
qed

lemma new_file_path_first:
  "\<not> exists fs (Path (parent inp) (stem inp @ ''_watermarked.pdf'')) \<Longrightarrow>
     new_file_path fs inp = Path (parent inp) (stem inp @ ''_watermarked.pdf'')"
  by (simp add: new_file_path_def ensure_new_file_def ensure_loop_free)

lemma str_1: "str (Suc 0) = ''1''"
  by (simp add: str.simps digit_def)

lemma new_file_path_second:
  assumes "exists fs (Path (parent inp) (stem inp @ ''_watermarked.pdf''))"
    and "\<not> exists fs (Path (parent inp) (stem inp @ ''_watermarked_1.pdf''))"
  shows "new_file_path fs inp = Path (parent inp) (stem inp @ ''_watermarked_1.pdf'')"
proof -
  let ?W0 = "Path (parent inp) (stem inp @ ''_watermarked.pdf'')"
  have st: "stem ?W0 = stem inp @ ''_watermarked''"
    using stem_pdf [of "stem inp @ ''_watermarked''" "parent inp"] by simp
  have su: "suffix ?W0 = ''.pdf''"
    using suffix_pdf [of "stem inp @ ''_watermarked''" "parent inp"] by simp
  have "ensure_new_file_loop fs ?W0 1
      = ensure_new_file_loop fs (Path (parent inp) (stem inp @ ''_watermarked_1.pdf'')) (1 + 1)"
    using assms(1) by (subst ensure_new_file_loop.simps) (simp add: st su str_1)
  also have "\<dots> = Path (parent inp) (stem inp @ ''_watermarked_1.pdf'')"
    using assms(2) by (rule ensure_loop_free)
  finally show ?thesis by (simp add: new_file_path_def ensure_new_file_def)
qed

lemma tmp_name_not_output:
  assumes "name f = x @ ''_'' @ u @ ''.pdf''" and "length u = 8"
  shows "name f \<noteq> s @ ''_watermarked.pdf''" and "name f \<noteq> s @ ''_watermarked_1.pdf''"
proof -
  have l: "rev (name f) ! 12 = CHR ''_''"
    using assms by (simp add: nth_append)
  have "rev (s @ ''_watermarked.pdf'') ! 12 = CHR ''t''" by (simp add: nth_append)
  with l show "name f \<noteq> s @ ''_watermarked.pdf''" by auto
  have "rev (s @ ''_watermarked_1.pdf'') ! 12 = CHR ''r''" by (simp add: nth_append)
  with l show "name f \<noteq> s @ ''_watermarked_1.pdf''" by auto
qed


section \<open>The driver: what a run does\<close>

lemma process_files_grows:
  "process_files wm os rnd fl k w = (r, w') \<Longrightarrow> grows (files w) (files w')"
proof (induction fl arbitrary: k w)
  case Nil
  then show ?case by (simp add: grows_refl)
next
  case (Cons input_file rest)
  obtain ra fs1 where a: "add_watermark input_file wm os (rnd k) (files w) = (ra, fs1)"
    by (cases "add_watermark input_file wm os (rnd k) (files w)") auto
  have g: "grows (files w) fs1" using add_watermark_grows [OF a] .
  show ?case
  proof (cases ra)
    case (Inl e)
    with Cons.prems a have "files w' = fs1" by (auto simp: Let_def)
    with g show ?thesis by simp
  next
    case (Inr u)
    with Cons.prems a have "process_files wm os rnd rest (Suc k)
        (w\<lparr>logged := logged w @ [Processing input_file], files := fs1\<rparr>) = (r, w')"
      by (simp add: Let_def)
    from Cons.IH [OF this] have "grows fs1 (files w')" by simp
    with g show ?thesis by (rule grows_trans)
  qed
qed

lemma process_files_log:
  "process_files wm os rnd fl k w = (Inr u, w') \<Longrightarrow> logged w' = logged w @ map Processing fl"
proof (induction fl arbitrary: k w)
  case Nil
  then show ?case by simp
next
  case (Cons input_file rest)
  obtain ra fs1 where a: "add_watermark input_file wm os (rnd k) (files w) = (ra, fs1)"
    by (cases "add_watermark input_file wm os (rnd k) (files w)") auto
  show ?case
  proof (cases ra)
    case (Inl e)
    with Cons.prems a show ?thesis by (simp add: Let_def)
  next
    case (Inr v)
    with Cons.prems a have "process_files wm os rnd rest (Suc k)
        (w\<lparr>logged := logged w @ [Processing input_file], files := fs1\<rparr>) = (Inr u, w')"
      by (simp add: Let_def)
    from Cons.IH [OF this] show ?thesis by simp
  qed
qed

lemma main_grows:
  assumes "main a pdfs os rnd w = (r, w')"
  shows "grows (files w) (files w')"
proof -
  obtain c fs1 where c: "create_watermark (watermark_text a) None os (rnd 0) (files w) = (c, fs1)"
    by (cases "create_watermark (watermark_text a) None os (rnd 0) (files w)") auto
  from create_watermark_cases [OF c] have g1: "grows (files w) fs1"
    by (auto simp: grows_refl grows_fresh)
  show ?thesis
  proof (cases c)
    case (Inl e)
    with c assms have "files w' = fs1" by (auto simp: main_def Let_def)
    with g1 show ?thesis by simp
  next
    case (Inr wm)
    obtain rp wp where p: "process_files wm os rnd (select_files a pdfs) 1 (w\<lparr>files := fs1\<rparr>) = (rp, wp)"
      by (cases "process_files wm os rnd (select_files a pdfs) 1 (w\<lparr>files := fs1\<rparr>)") auto
    from process_files_grows [OF p] have g2: "grows fs1 (files wp)" by simp
    have "files w' = files wp"
      using assms c Inr p by (cases rp) (auto simp: main_def Let_def)
    with g1 g2 show ?thesis by (auto intro: grows_trans)
  qed
qed

lemma main_log:
  assumes "main a pdfs os rnd w = (Inr u, w')"
  shows "logged w' = logged w @ map Processing (select_files a pdfs) @ [AllDone]"
proof -
  obtain c fs1 where c: "create_watermark (watermark_text a) None os (rnd 0) (files w) = (c, fs1)"
    by (cases "create_watermark (watermark_text a) None os (rnd 0) (files w)") auto
  show ?thesis
  proof (cases c)
    case (Inl e)
    with c assms show ?thesis by (auto simp: main_def Let_def)
  next
    case (Inr wm)
    obtain rp wp where p: "process_files wm os rnd (select_files a pdfs) 1 (w\<lparr>files := fs1\<rparr>) = (rp, wp)"
      by (cases "process_files wm os rnd (select_files a pdfs) 1 (w\<lparr>files := fs1\<rparr>)") auto
    show ?thesis
    proof (cases rp)
      case (Inl e)
      with assms c Inr p show ?thesis by (auto simp: main_def Let_def)
    next
      case (Inr v)
      with p process_files_log [of wm os rnd "select_files a pdfs" 1 "w\<lparr>files := fs1\<rparr>" v wp]
      have "logged wp = logged w @ map Processing (select_files a pdfs)" by simp
      moreover have "w' = wp\<lparr>logged := logged wp @ [AllDone]\<rparr>"
        using assms c \<open>c = Inr wm\<close> p Inr by (auto simp: main_def Let_def)
      ultimately show ?thesis by simp
    qed
  qed
qed

lemma main_single:
  assumes sel: "select_files a pdfs = [inp]"
    and run: "main a pdfs os rnd w = (Inr u, w')"
  shows "\<exists>f0 x0 f1 x1 pages.
           \<not> exists (files w) f0 \<and>
           name f0 = x0 @ ''_'' @ take 8 (hex (uuid4 (rnd 0))) @ ''.pdf'' \<and>
           \<not> exists (fmupd f0 (Pdf [Drawn (watermark_text a)]) (files w)) f1 \<and>
           name f1 = x1 @ ''_'' @ take 8 (hex (uuid4 (rnd 1))) @ ''.pdf'' \<and>
           fmlookup (fmupd f0 (Pdf [Drawn (watermark_text a)]) (files w)) inp = Some (Pdf pages) \<and>
           files w' =
             fmupd (new_file_path (fmupd f0 (Pdf [Drawn (watermark_text a)]) (files w)) inp)
               (Pdf (map (\<lambda>p. Merged p (Drawn (watermark_text a))) pages))
               (fmupd f1 (Pdf (replicate (length pages) (Drawn (watermark_text a))))
                  (fmupd f0 (Pdf [Drawn (watermark_text a)]) (files w)))"
proof -
  let ?t = "watermark_text a"
  obtain c fs1 where c: "create_watermark ?t None os (rnd 0) (files w) = (c, fs1)"
    by (cases "create_watermark ?t None os (rnd 0) (files w)") auto
  from run c obtain f0 where c0: "c = Inr f0"
    by (cases c) (auto simp: main_def Let_def)
  from create_watermark_cases [OF c] c0 obtain x0 where
    fresh0: "\<not> exists (files w) f0" and fs1: "fs1 = fmupd f0 (Pdf [Drawn ?t]) (files w)"
    and nm0: "name f0 = x0 @ ''_'' @ take 8 (hex (uuid4 (rnd 0))) @ ''.pdf''" by auto
  obtain ra fs2 where ad: "add_watermark inp f0 os (rnd 1) fs1 = (ra, fs2)"
    by (cases "add_watermark inp f0 os (rnd 1) fs1") auto
  from run c c0 sel ad have ra: "ra = Inr ()" and w': "files w' = fs2"
    by (cases ra; auto simp: main_def Let_def)+
  from add_watermark_cases [OF ad] ra obtain f1 x1 w0 ws pages where
    fresh1: "\<not> exists fs1 f1" and nm1: "name f1 = x1 @ ''_'' @ take 8 (hex (uuid4 (rnd 1))) @ ''.pdf''"
    and wm: "fmlookup fs1 f0 = Some (Pdf (w0 # ws))"
    and inp: "fmlookup fs1 inp = Some (Pdf pages)"
    and fs2: "fs2 = fmupd (new_file_path fs1 inp) (Pdf (map (\<lambda>p. Merged p w0) pages))
                    (fmupd f1 (Pdf (replicate (length pages) w0)) fs1)" by auto
  from wm fs1 have "w0 = Drawn ?t" by simp
  with fresh0 nm0 fresh1 nm1 inp fs2 w' fs1 show ?thesis by blast
qed

section \<open>Allocation, selection and evaluation\<close>

lemma tmp_allocatedD:
  "tmp_allocated os rnd pre fs f \<Longrightarrow>
     \<exists>fs1. mkstemp (candidates rnd) (''_'' @ take 8 (hex (uuid4 rnd)) @ ''.pdf'') pre
             (gettempdir os) (directories os) fs = (Inr f, fs1)"
  by (cases "mkstemp (candidates rnd) (''_'' @ take 8 (hex (uuid4 rnd)) @ ''.pdf'') pre
             (gettempdir os) (directories os) fs") (simp add: tmp_allocated_def)

lemma mkstemp_inner_cong:
  "(\<And>p. exists fs p = exists fs' p) \<Longrightarrow> mkstemp_inner dirs fs ps = mkstemp_inner dirs fs' ps"
  by (induction ps) auto

lemma tmp_allocated_overwrite:
  assumes "exists fs p" and "tmp_allocated os rnd pre fs f"
  shows "tmp_allocated os rnd pre (fmupd p e fs) f"
proof -
  have "\<And>q. exists (fmupd p e fs) q = exists fs q"
    using assms(1) by (auto simp: exists_def)
  from mkstemp_inner_cong [OF this] assms(2) show ?thesis
    by (auto simp: tmp_allocated_def mkstemp_def split: sum.splits)
qed

lemma grows_lookup: "grows fs fs' \<Longrightarrow> fmlookup fs q = Some e \<Longrightarrow> fmlookup fs' q = Some e"
  by (auto simp: grows_def exists_def)

lemma fresh_neq: "\<not> exists fs f \<Longrightarrow> fmlookup fs q = Some e \<Longrightarrow> f \<noteq> q"
  by (auto simp: exists_def)

lemma tmp_not_output:
  assumes "name f = x @ ''_'' @ take 8 (hex u) @ ''.pdf''"
  shows "f \<noteq> Path d (s @ ''_watermarked.pdf'')" and "f \<noteq> Path d (s @ ''_watermarked_1.pdf'')"
  using tmp_name_not_output [OF assms unique_id_length, of s] by auto

lemma select_files_eq:
  "select_files a cwd_pdfs =
     [f \<leftarrow> (case input_files a of None \<Rightarrow> cwd_pdfs | Some [] \<Rightarrow> cwd_pdfs | Some (g # gs) \<Rightarrow> g # gs).
        name f \<notin> set (case exclude a of None \<Rightarrow> [] | Some xs \<Rightarrow> xs)]"
  by (simp add: select_files_def Let_def split: option.splits list.splits)

lemma unique_id_0: "take 8 (hex 0) = ''00000000''"
  by (simp add: hex_def hex_digits.simps hexdigit_def)

lemmas run_defs =
  add_watermark_def duplicate_watermark_def create_watermark_def new_file_path_def
  ensure_new_file_def ensure_new_file_loop.simps mkstemp_def TMP_MAX_def MAX_TEXT_LENGTH_def
  join_def exists_def PdfFileReader_def getNumPages_def getPage_def correct_pdf_path_def
  with_suffix_def suffix_def stem_def str.simps digit_def tmp_allocated_def Let_def

text \<open>
  The renderer in general. A text of 28 or more characters fails the assertion (the code's
  \<^verbatim>\<open>AssertionError\<close> is what the specification calls InvalidInputError) before anything else
  happens: the file system is returned as it was. A shorter text, when the temporary file
  \<open>f\<close> can be allocated, makes the call return \<open>f\<close>, a file that did not exist, now holding
  the single page drawn from the text, and nothing else changes; when no temporary
  file can be allocated the call fails and the file system is as it was.
\<close>

lemma create_watermark_length_check:
  "(28 \<le> length t \<longrightarrow> create_watermark t None os rnd fs = (Inl AssertionError, fs)) \<and>
   (length t < 28 \<longrightarrow> tmp_allocated os rnd (''watermark_'' @ t) fs f \<longrightarrow>
      create_watermark t None os rnd fs = (Inr f, fmupd f (Pdf [Drawn t]) fs) \<and> \<not> exists fs f) \<and>
   (length t < 28 \<longrightarrow> (\<forall>g. \<not> tmp_allocated os rnd (''watermark_'' @ t) fs g) \<longrightarrow>
      (\<exists>e. create_watermark t None os rnd fs = (Inl e, fs)))"
proof (intro conjI impI)
  assume "28 \<le> length t"
  then show "create_watermark t None os rnd fs = (Inl AssertionError, fs)"
    by (intro create_watermark_too_long) simp
next
  assume l: "length t < 28" and al: "tmp_allocated os rnd (''watermark_'' @ t) fs f"
  from tmp_allocatedD [OF al] obtain fs1 where
    m: "mkstemp (candidates rnd) (''_'' @ take 8 (hex (uuid4 rnd)) @ ''.pdf'') (''watermark_'' @ t)
       (gettempdir os) (directories os) fs = (Inr f, fs1)" by blast
  from create_watermark_ok [OF l m]
  show "create_watermark t None os rnd fs = (Inr f, fmupd f (Pdf [Drawn t]) fs)" .
  from mkstemp_tmp(2) [OF m] show "\<not> exists fs f" .
next
  assume l: "length t < 28" and no: "\<forall>g. \<not> tmp_allocated os rnd (''watermark_'' @ t) fs g"
  obtain m fs1 where
    m: "mkstemp (candidates rnd) (''_'' @ take 8 (hex (uuid4 rnd)) @ ''.pdf'') (''watermark_'' @ t)
       (gettempdir os) (directories os) fs = (m, fs1)"
    by (cases "mkstemp (candidates rnd) (''_'' @ take 8 (hex (uuid4 rnd)) @ ''.pdf'')
       (''watermark_'' @ t) (gettempdir os) (directories os) fs") auto
  with no obtain e where "m = Inl e" by (cases m) (auto simp: tmp_allocated_def)
  with create_watermark_fail [OF l] m
  show "\<exists>e. create_watermark t None os rnd fs = (Inl e, fs)" by auto
qed

lemma create_watermark_length_check_example:
  "28 \<le> length ''this text has 28 characters.''
   \<and> create_watermark ''this text has 28 characters.'' None
        \<lparr>gettempdir = ''/tmp'', directories = [''/tmp'']\<rparr>
        \<lparr>uuid4 = 0, candidates = [''k3x9_a0b'']\<rparr> fmempty = (Inl AssertionError, fmempty)
   \<and> length ''CONFIDENTIAL'' < 28
   \<and> tmp_allocated \<lparr>gettempdir = ''/tmp'', directories = [''/tmp'']\<rparr>
        \<lparr>uuid4 = 0, candidates = [''k3x9_a0b'']\<rparr> (''watermark_'' @ ''CONFIDENTIAL'') fmempty
        (Path ''/tmp'' ''watermark_CONFIDENTIALk3x9_a0b_00000000.pdf'')
   \<and> create_watermark ''CONFIDENTIAL'' None
        \<lparr>gettempdir = ''/tmp'', directories = [''/tmp'']\<rparr>
        \<lparr>uuid4 = 0, candidates = [''k3x9_a0b'']\<rparr> fmempty
      = (Inr (Path ''/tmp'' ''watermark_CONFIDENTIALk3x9_a0b_00000000.pdf''),
         fmupd (Path ''/tmp'' ''watermark_CONFIDENTIALk3x9_a0b_00000000.pdf'')
           (Pdf [Drawn ''CONFIDENTIAL'']) fmempty)
   \<and> length ''a/b'' < 28
   \<and> (\<forall>g. \<not> tmp_allocated \<lparr>gettempdir = ''/tmp'', directories = [''/tmp'']\<rparr>
        \<lparr>uuid4 = 0, candidates = [''k3x9_a0b'']\<rparr> (''watermark_'' @ ''a/b'') fmempty g)
   \<and> (\<exists>e. create_watermark ''a/b'' None
        \<lparr>gettempdir = ''/tmp'', directories = [''/tmp'']\<rparr>
        \<lparr>uuid4 = 0, candidates = [''k3x9_a0b'']\<rparr> fmempty = (Inl e, fmempty))"
proof -
  have h3: "tmp_allocated \<lparr>gettempdir = ''/tmp'', directories = [''/tmp'']\<rparr>
        \<lparr>uuid4 = 0, candidates = [''k3x9_a0b'']\<rparr> (''watermark_'' @ ''CONFIDENTIAL'') fmempty
        (Path ''/tmp'' ''watermark_CONFIDENTIALk3x9_a0b_00000000.pdf'')"
    by (simp add: tmp_allocated_def mkstemp_def TMP_MAX_def join_def unique_id_0 exists_def)
  have h4: "\<forall>g. \<not> tmp_allocated \<lparr>gettempdir = ''/tmp'', directories = [''/tmp'']\<rparr>
        \<lparr>uuid4 = 0, candidates = [''k3x9_a0b'']\<rparr> (''watermark_'' @ ''a/b'') fmempty g"
    by (simp add: tmp_allocated_def mkstemp_def TMP_MAX_def join_def unique_id_0 exists_def)
  from create_watermark_length_check
    [of "''this text has 28 characters.''" "\<lparr>gettempdir = ''/tmp'', directories = [''/tmp'']\<rparr>"
      "\<lparr>uuid4 = 0, candidates = [''k3x9_a0b'']\<rparr>" fmempty]
    create_watermark_length_check
    [of "''CONFIDENTIAL''" "\<lparr>gettempdir = ''/tmp'', directories = [''/tmp'']\<rparr>"
      "\<lparr>uuid4 = 0, candidates = [''k3x9_a0b'']\<rparr>" fmempty
      "Path ''/tmp'' ''watermark_CONFIDENTIALk3x9_a0b_00000000.pdf''"]
    create_watermark_length_check
    [of "''a/b''" "\<lparr>gettempdir = ''/tmp'', directories = [''/tmp'']\<rparr>"
      "\<lparr>uuid4 = 0, candidates = [''k3x9_a0b'']\<rparr>" fmempty]
    h3 h4
  show ?thesis by simp
qed

section \<open>The properties claimed of the program\<close>

text \<open>
  Claim C1 says that resolving the same taken path again and again, creating each
  returned file, numbers the base name 1, 2, 3, ...: \<^verbatim>\<open>name_watermarked_1.pdf\<close>, then
  \<^verbatim>\<open>name_watermarked_2.pdf\<close>. The loop instead builds each candidate from the previous
  candidate, not from the path it was given: with \<^verbatim>\<open>name_watermarked.pdf\<close> taken the first
  resolution returns \<^verbatim>\<open>name_watermarked_1.pdf\<close>, and once that file exists the second
  resolution returns \<^verbatim>\<open>name_watermarked_1_2.pdf\<close>, not \<^verbatim>\<open>name_watermarked_2.pdf\<close>.
\<close>

theorem ensure_new_file_second_resolution:
  "(let p = Path ''docs'' ''name_watermarked.pdf'';
        fs = fmupd p Other fmempty;
        q1 = ensure_new_file fs p;
        q2 = ensure_new_file (fmupd q1 Other fs) p
    in q1 = Path ''docs'' ''name_watermarked_1.pdf'' \<and>
       q2 = Path ''docs'' ''name_watermarked_1_2.pdf'' \<and>
       q2 \<noteq> Path ''docs'' ''name_watermarked_2.pdf'')"
  by (simp add: ensure_new_file_def ensure_new_file_loop.simps exists_def stem_def suffix_def
      str.simps digit_def Let_def)

text \<open>
  Claim C2: the full pipeline run twice on the same input file with the same watermark text,
  starting where neither \<^verbatim>\<open><stem>_watermarked.pdf\<close> nor \<^verbatim>\<open><stem>_watermarked_1.pdf\<close> exists.
  After the first run the output is at \<^verbatim>\<open><stem>_watermarked.pdf\<close> and \<^verbatim>\<open><stem>_watermarked_1.pdf\<close>
  still does not exist; after the second run the second output is at
  \<^verbatim>\<open><stem>_watermarked_1.pdf\<close>, a different path, and the first output is what the first run
  wrote. The two runs may draw different random names and see a different directory listing;
  the temporary files never take one of the two output names.
\<close>

theorem two_runs_two_outputs:
  assumes sel1: "select_files a pdfs1 = [inp]" and sel2: "select_files a pdfs2 = [inp]"
    and free0: "\<not> exists (files w) (Path (parent inp) (stem inp @ ''_watermarked.pdf''))"
    and free1: "\<not> exists (files w) (Path (parent inp) (stem inp @ ''_watermarked_1.pdf''))"
    and run1: "main a pdfs1 os1 rnd1 w = (Inr (), w1)"
    and run2: "main a pdfs2 os2 rnd2 w1 = (Inr (), w2)"
  shows "\<exists>out.
           fmlookup (files w1) (Path (parent inp) (stem inp @ ''_watermarked.pdf'')) = Some (Pdf out) \<and>
           \<not> exists (files w1) (Path (parent inp) (stem inp @ ''_watermarked_1.pdf'')) \<and>
           fmlookup (files w2) (Path (parent inp) (stem inp @ ''_watermarked_1.pdf'')) = Some (Pdf out) \<and>
           fmlookup (files w2) (Path (parent inp) (stem inp @ ''_watermarked.pdf'')) = Some (Pdf out) \<and>
           Path (parent inp) (stem inp @ ''_watermarked.pdf'')
             \<noteq> Path (parent inp) (stem inp @ ''_watermarked_1.pdf'')"
proof -
  let ?t = "watermark_text a"
  let ?W0 = "Path (parent inp) (stem inp @ ''_watermarked.pdf'')"
  let ?W1 = "Path (parent inp) (stem inp @ ''_watermarked_1.pdf'')"
  have W01: "?W0 \<noteq> ?W1" by simp
  \<comment> \<open>the first run\<close>
  from main_single [OF sel1 run1] obtain f0 x0 f1 x1 pages where
    f0: "\<not> exists (files w) f0"
    and n0: "name f0 = x0 @ ''_'' @ take 8 (hex (uuid4 (rnd1 0))) @ ''.pdf''"
    and f1: "\<not> exists (fmupd f0 (Pdf [Drawn ?t]) (files w)) f1"
    and n1: "name f1 = x1 @ ''_'' @ take 8 (hex (uuid4 (rnd1 1))) @ ''.pdf''"
    and inp1: "fmlookup (fmupd f0 (Pdf [Drawn ?t]) (files w)) inp = Some (Pdf pages)"
    and w1: "files w1 = fmupd (new_file_path (fmupd f0 (Pdf [Drawn ?t]) (files w)) inp)
               (Pdf (map (\<lambda>p. Merged p (Drawn ?t)) pages))
               (fmupd f1 (Pdf (replicate (length pages) (Drawn ?t)))
                  (fmupd f0 (Pdf [Drawn ?t]) (files w)))"
    by blast
  let ?fs1 = "fmupd f0 (Pdf [Drawn ?t]) (files w)"
  let ?out = "map (\<lambda>p. Merged p (Drawn ?t)) pages"
  have f0W: "f0 \<noteq> ?W0" "f0 \<noteq> ?W1" using tmp_not_output [OF n0] by auto
  have f1W: "f1 \<noteq> ?W0" "f1 \<noteq> ?W1" using tmp_not_output [OF n1] by auto
  have "\<not> exists ?fs1 ?W0" using free0 f0W by (simp add: exists_def)
  then have nf1: "new_file_path ?fs1 inp = ?W0" by (rule new_file_path_first)
  have w1': "files w1 = fmupd ?W0 (Pdf ?out) (fmupd f1 (Pdf (replicate (length pages) (Drawn ?t))) ?fs1)"
    using w1 nf1 by simp
  have a1: "fmlookup (files w1) ?W0 = Some (Pdf ?out)" using w1' by simp
  have a2: "\<not> exists (files w1) ?W1"
    using free1 f0W f1W W01 by (simp add: w1' exists_def)
  have g1: "grows ?fs1 (files w1)"
  proof -
    have "\<not> exists ?fs1 ?W0" by fact
    with f1 show ?thesis unfolding w1' by (auto simp: grows_def exists_def)
  qed
  have inp_w1: "fmlookup (files w1) inp = Some (Pdf pages)"
    using grows_lookup [OF g1 inp1] .
  \<comment> \<open>the second run\<close>
  from main_single [OF sel2 run2] obtain g0 y0 g1 y1 pages2 where
    g0: "\<not> exists (files w1) g0"
    and m0: "name g0 = y0 @ ''_'' @ take 8 (hex (uuid4 (rnd2 0))) @ ''.pdf''"
    and g1f: "\<not> exists (fmupd g0 (Pdf [Drawn ?t]) (files w1)) g1"
    and m1: "name g1 = y1 @ ''_'' @ take 8 (hex (uuid4 (rnd2 1))) @ ''.pdf''"
    and inp2: "fmlookup (fmupd g0 (Pdf [Drawn ?t]) (files w1)) inp = Some (Pdf pages2)"
    and w2: "files w2 = fmupd (new_file_path (fmupd g0 (Pdf [Drawn ?t]) (files w1)) inp)
               (Pdf (map (\<lambda>p. Merged p (Drawn ?t)) pages2))
               (fmupd g1 (Pdf (replicate (length pages2) (Drawn ?t)))
                  (fmupd g0 (Pdf [Drawn ?t]) (files w1)))"
    by blast
  let ?gs1 = "fmupd g0 (Pdf [Drawn ?t]) (files w1)"
  have g0W: "g0 \<noteq> ?W0" "g0 \<noteq> ?W1" using tmp_not_output [OF m0] by auto
  have g1W: "g1 \<noteq> ?W0" "g1 \<noteq> ?W1" using tmp_not_output [OF m1] by auto
  have "g0 \<noteq> inp" using fresh_neq [OF g0 inp_w1] .
  with inp2 inp_w1 have pages2: "pages2 = pages" by simp
  have e0: "exists ?gs1 ?W0" using a1 g0W by (simp add: exists_def)
  have e1: "\<not> exists ?gs1 ?W1" using a2 g0W by (simp add: exists_def)
  have nf2: "new_file_path ?gs1 inp = ?W1" using e0 e1 by (rule new_file_path_second)
  have w2': "files w2 = fmupd ?W1 (Pdf ?out) (fmupd g1 (Pdf (replicate (length pages) (Drawn ?t))) ?gs1)"
    using w2 nf2 pages2 by simp
  have b1: "fmlookup (files w2) ?W1 = Some (Pdf ?out)" using w2' by simp
  have b2: "fmlookup (files w2) ?W0 = Some (Pdf ?out)"
    using a1 g0W g1W W01 by (simp add: w2')
  from a1 a2 b1 b2 W01 show ?thesis by blast
qed

theorem two_runs_two_outputs_witness:
  "select_files \<lparr>watermark_text = ''DRAFT'', input_files = Some [Path ''docs'' ''report.pdf''], exclude = None\<rparr> [] = [(Path ''docs'' ''report.pdf'')]
   \<and> \<not> exists (files \<lparr>files = (fmupd (Path ''docs'' ''report.pdf'') (Pdf [Content ''p1'', Content ''p2'']) fmempty), logged = []\<rparr>) (Path ''docs'' ''report_watermarked.pdf'')
   \<and> \<not> exists (files \<lparr>files = (fmupd (Path ''docs'' ''report.pdf'') (Pdf [Content ''p1'', Content ''p2'']) fmempty), logged = []\<rparr>) (Path ''docs'' ''report_watermarked_1.pdf'')
   \<and> main \<lparr>watermark_text = ''DRAFT'', input_files = Some [Path ''docs'' ''report.pdf''], exclude = None\<rparr> [] \<lparr>gettempdir = ''/tmp'', directories = [''/tmp'']\<rparr> (\<lambda>k. \<lparr>uuid4 = 0, candidates = [''k3x9_a0b'']\<rparr>) \<lparr>files = (fmupd (Path ''docs'' ''report.pdf'') (Pdf [Content ''p1'', Content ''p2'']) fmempty), logged = []\<rparr>
     = (Inr (), \<lparr>files = (fmupd (Path ''docs'' ''report_watermarked.pdf'') (Pdf [Merged (Content ''p1'') (Drawn ''DRAFT''), Merged (Content ''p2'') (Drawn ''DRAFT'')])
      (fmupd (Path ''/tmp'' ''watermark_tmpk3x9_a0b_00000000.pdf'') (Pdf [Drawn ''DRAFT'', Drawn ''DRAFT''])
      (fmupd (Path ''/tmp'' ''watermark_DRAFTk3x9_a0b_00000000.pdf'') (Pdf [Drawn ''DRAFT''])
      (fmupd (Path ''docs'' ''report.pdf'') (Pdf [Content ''p1'', Content ''p2'']) fmempty)))),
     logged = [Processing (Path ''docs'' ''report.pdf''), AllDone]\<rparr>)
   \<and> main \<lparr>watermark_text = ''DRAFT'', input_files = Some [Path ''docs'' ''report.pdf''], exclude = None\<rparr> [] \<lparr>gettempdir = ''/tmp'', directories = [''/tmp'']\<rparr> (\<lambda>k. \<lparr>uuid4 = 0, candidates = [''zz_7q2mm'']\<rparr>)
       \<lparr>files = (fmupd (Path ''docs'' ''report_watermarked.pdf'') (Pdf [Merged (Content ''p1'') (Drawn ''DRAFT''), Merged (Content ''p2'') (Drawn ''DRAFT'')])
      (fmupd (Path ''/tmp'' ''watermark_tmpk3x9_a0b_00000000.pdf'') (Pdf [Drawn ''DRAFT'', Drawn ''DRAFT''])
      (fmupd (Path ''/tmp'' ''watermark_DRAFTk3x9_a0b_00000000.pdf'') (Pdf [Drawn ''DRAFT''])
      (fmupd (Path ''docs'' ''report.pdf'') (Pdf [Content ''p1'', Content ''p2'']) fmempty)))),
     logged = [Processing (Path ''docs'' ''report.pdf''), AllDone]\<rparr>
     = (Inr (), \<lparr>files = (fmupd (Path ''docs'' ''report_watermarked_1.pdf'') (Pdf [Merged (Content ''p1'') (Drawn ''DRAFT''), Merged (Content ''p2'') (Drawn ''DRAFT'')])
      (fmupd (Path ''/tmp'' ''watermark_tmpzz_7q2mm_00000000.pdf'') (Pdf [Drawn ''DRAFT'', Drawn ''DRAFT''])
      (fmupd (Path ''/tmp'' ''watermark_DRAFTzz_7q2mm_00000000.pdf'') (Pdf [Drawn ''DRAFT''])
      (fmupd (Path ''docs'' ''report_watermarked.pdf'') (Pdf [Merged (Content ''p1'') (Drawn ''DRAFT''), Merged (Content ''p2'') (Drawn ''DRAFT'')])
      (fmupd (Path ''/tmp'' ''watermark_tmpk3x9_a0b_00000000.pdf'') (Pdf [Drawn ''DRAFT'', Drawn ''DRAFT''])
      (fmupd (Path ''/tmp'' ''watermark_DRAFTk3x9_a0b_00000000.pdf'') (Pdf [Drawn ''DRAFT''])
      (fmupd (Path ''docs'' ''report.pdf'') (Pdf [Content ''p1'', Content ''p2'']) fmempty))))))),
     logged = [Processing (Path ''docs'' ''report.pdf''), AllDone, Processing (Path ''docs'' ''report.pdf''), AllDone]\<rparr>)
   \<and> fmlookup (files \<lparr>files = (fmupd (Path ''docs'' ''report_watermarked_1.pdf'') (Pdf [Merged (Content ''p1'') (Drawn ''DRAFT''), Merged (Content ''p2'') (Drawn ''DRAFT'')])
      (fmupd (Path ''/tmp'' ''watermark_tmpzz_7q2mm_00000000.pdf'') (Pdf [Drawn ''DRAFT'', Drawn ''DRAFT''])
      (fmupd (Path ''/tmp'' ''watermark_DRAFTzz_7q2mm_00000000.pdf'') (Pdf [Drawn ''DRAFT''])
      (fmupd (Path ''docs'' ''report_watermarked.pdf'') (Pdf [Merged (Content ''p1'') (Drawn ''DRAFT''), Merged (Content ''p2'') (Drawn ''DRAFT'')])
      (fmupd (Path ''/tmp'' ''watermark_tmpk3x9_a0b_00000000.pdf'') (Pdf [Drawn ''DRAFT'', Drawn ''DRAFT''])
      (fmupd (Path ''/tmp'' ''watermark_DRAFTk3x9_a0b_00000000.pdf'') (Pdf [Drawn ''DRAFT''])
      (fmupd (Path ''docs'' ''report.pdf'') (Pdf [Content ''p1'', Content ''p2'']) fmempty))))))),
     logged = [Processing (Path ''docs'' ''report.pdf''), AllDone, Processing (Path ''docs'' ''report.pdf''), AllDone]\<rparr>) (Path ''docs'' ''report_watermarked.pdf'') = Some (Pdf [Merged (Content ''p1'') (Drawn ''DRAFT''), Merged (Content ''p2'') (Drawn ''DRAFT'')])
   \<and> fmlookup (files \<lparr>files = (fmupd (Path ''docs'' ''report_watermarked_1.pdf'') (Pdf [Merged (Content ''p1'') (Drawn ''DRAFT''), Merged (Content ''p2'') (Drawn ''DRAFT'')])
      (fmupd (Path ''/tmp'' ''watermark_tmpzz_7q2mm_00000000.pdf'') (Pdf [Drawn ''DRAFT'', Drawn ''DRAFT''])
      (fmupd (Path ''/tmp'' ''watermark_DRAFTzz_7q2mm_00000000.pdf'') (Pdf [Drawn ''DRAFT''])
      (fmupd (Path ''docs'' ''report_watermarked.pdf'') (Pdf [Merged (Content ''p1'') (Drawn ''DRAFT''), Merged (Content ''p2'') (Drawn ''DRAFT'')])
      (fmupd (Path ''/tmp'' ''watermark_tmpk3x9_a0b_00000000.pdf'') (Pdf [Drawn ''DRAFT'', Drawn ''DRAFT''])
      (fmupd (Path ''/tmp'' ''watermark_DRAFTk3x9_a0b_00000000.pdf'') (Pdf [Drawn ''DRAFT''])
      (fmupd (Path ''docs'' ''report.pdf'') (Pdf [Content ''p1'', Content ''p2'']) fmempty))))))),
     logged = [Processing (Path ''docs'' ''report.pdf''), AllDone, Processing (Path ''docs'' ''report.pdf''), AllDone]\<rparr>) (Path ''docs'' ''report_watermarked_1.pdf'') = Some (Pdf [Merged (Content ''p1'') (Drawn ''DRAFT''), Merged (Content ''p2'') (Drawn ''DRAFT'')])"
proof -
  let ?a = "\<lparr>watermark_text = ''DRAFT'', input_files = Some [Path ''docs'' ''report.pdf''], exclude = None\<rparr>"
  let ?inp = "(Path ''docs'' ''report.pdf'')"
  let ?os = "\<lparr>gettempdir = ''/tmp'', directories = [''/tmp'']\<rparr>"
  let ?w = "\<lparr>files = (fmupd (Path ''docs'' ''report.pdf'') (Pdf [Content ''p1'', Content ''p2'']) fmempty), logged = []\<rparr>"
  let ?w1 = "\<lparr>files = (fmupd (Path ''docs'' ''report_watermarked.pdf'') (Pdf [Merged (Content ''p1'') (Drawn ''DRAFT''), Merged (Content ''p2'') (Drawn ''DRAFT'')])
      (fmupd (Path ''/tmp'' ''watermark_tmpk3x9_a0b_00000000.pdf'') (Pdf [Drawn ''DRAFT'', Drawn ''DRAFT''])
      (fmupd (Path ''/tmp'' ''watermark_DRAFTk3x9_a0b_00000000.pdf'') (Pdf [Drawn ''DRAFT''])
      (fmupd (Path ''docs'' ''report.pdf'') (Pdf [Content ''p1'', Content ''p2'']) fmempty)))),
     logged = [Processing (Path ''docs'' ''report.pdf''), AllDone]\<rparr>"
  let ?w2 = "\<lparr>files = (fmupd (Path ''docs'' ''report_watermarked_1.pdf'') (Pdf [Merged (Content ''p1'') (Drawn ''DRAFT''), Merged (Content ''p2'') (Drawn ''DRAFT'')])
      (fmupd (Path ''/tmp'' ''watermark_tmpzz_7q2mm_00000000.pdf'') (Pdf [Drawn ''DRAFT'', Drawn ''DRAFT''])
      (fmupd (Path ''/tmp'' ''watermark_DRAFTzz_7q2mm_00000000.pdf'') (Pdf [Drawn ''DRAFT''])
      (fmupd (Path ''docs'' ''report_watermarked.pdf'') (Pdf [Merged (Content ''p1'') (Drawn ''DRAFT''), Merged (Content ''p2'') (Drawn ''DRAFT'')])
      (fmupd (Path ''/tmp'' ''watermark_tmpk3x9_a0b_00000000.pdf'') (Pdf [Drawn ''DRAFT'', Drawn ''DRAFT''])
      (fmupd (Path ''/tmp'' ''watermark_DRAFTk3x9_a0b_00000000.pdf'') (Pdf [Drawn ''DRAFT''])
      (fmupd (Path ''docs'' ''report.pdf'') (Pdf [Content ''p1'', Content ''p2'']) fmempty))))))),
     logged = [Processing (Path ''docs'' ''report.pdf''), AllDone, Processing (Path ''docs'' ''report.pdf''), AllDone]\<rparr>"
  have s: "select_files ?a [] = [?inp]" by (simp add: select_files_def)
  have f0: "\<not> exists (files ?w) (Path (parent ?inp) (stem ?inp @ ''_watermarked.pdf''))"
    by (simp add: exists_def stem_def)
  have f1: "\<not> exists (files ?w) (Path (parent ?inp) (stem ?inp @ ''_watermarked_1.pdf''))"
    by (simp add: exists_def stem_def)
  have r1: "main ?a [] ?os (\<lambda>k. \<lparr>uuid4 = 0, candidates = [''k3x9_a0b'']\<rparr>) ?w = (Inr (), ?w1)"
    by (simp add: main_def select_files_def run_defs unique_id_0)
  have r2: "main ?a [] ?os (\<lambda>k. \<lparr>uuid4 = 0, candidates = [''zz_7q2mm'']\<rparr>) ?w1 = (Inr (), ?w2)"
    by (simp add: main_def select_files_def run_defs unique_id_0)
  have st: "stem ?inp = ''report''" by (simp add: stem_def)
  from two_runs_two_outputs [OF s s f0 f1 r1 r2] s f0 f1 r1 r2 st
  show ?thesis by simp
qed

text \<open>
  Claim C3 says that a text of 28 or more characters fails before any file is touched, and
  that every shorter text is rendered into exactly one single-page file. The first half
  holds (\<open>create_watermark_length_check\<close>). The second half fails for a text with a path
  separator: the text is part of the temporary file's name (\<^verbatim>\<open>prefix="watermark_" + text\<close>),
  so \<^verbatim>\<open>tempfile.mkstemp\<close> is asked for a file in a directory that does not exist. With an
  existing, empty temporary directory \<^verbatim>\<open>create_watermark("a/b")\<close> raises
  \<^verbatim>\<open>FileNotFoundError\<close> and returns no path.
\<close>

theorem create_watermark_path_separator:
  "length ''a/b'' < 28 \<and>
   create_watermark ''a/b'' None \<lparr>gettempdir = ''/tmp'', directories = [''/tmp'']\<rparr>
     \<lparr>uuid4 = 0, candidates = [''k3x9_a0b'']\<rparr> fmempty
   = (Inl FileNotFoundError, fmempty)"
  by (simp add: create_watermark_def MAX_TEXT_LENGTH_def mkstemp_def TMP_MAX_def join_def
      unique_id_0 Let_def)

text \<open>
  Claim C4: for a watermark document with at least one page and every \<open>n \<ge> 0\<close>,
  \<^const>\<open>duplicate_watermark\<close> writes a document of exactly \<open>n\<close> pages, each the watermark's
  first page. The other pages \<open>ws\<close> of the watermark are not used: with any other pages
  \<open>ws'\<close> after the first one the call writes the same document.
\<close>

theorem replicate_first_page:
  assumes "0 \<le> n"
    and "fmlookup fs wm = Some (Pdf (w # ws))"
    and "tmp_allocated os rnd ''watermark_tmp'' fs f"
  shows "\<exists>doc. duplicate_watermark wm n None os rnd fs = (Inr f, fmupd f (Pdf doc) fs) \<and>
           int (length doc) = n \<and> (\<forall>i<length doc. doc ! i = w) \<and>
           (\<forall>ws'. duplicate_watermark wm n None os rnd (fmupd wm (Pdf (w # ws')) fs)
                    = (Inr f, fmupd f (Pdf doc) (fmupd wm (Pdf (w # ws')) fs)))"
proof -
  from tmp_allocatedD [OF assms(3)] obtain fs1 where
    m: "mkstemp (candidates rnd) (''_'' @ take 8 (hex (uuid4 rnd)) @ ''.pdf'') ''watermark_tmp''
       (gettempdir os) (directories os) fs = (Inr f, fs1)" by blast
  have d: "duplicate_watermark wm n None os rnd fs = (Inr f, fmupd f (Pdf (replicate (nat n) w)) fs)"
    by (rule duplicate_watermark_ok [OF m assms(2)])
  have "duplicate_watermark wm n None os rnd (fmupd wm (Pdf (w # ws')) fs)
      = (Inr f, fmupd f (Pdf (replicate (nat n) w)) (fmupd wm (Pdf (w # ws')) fs))" for ws'
  proof -
    have "exists fs wm" using assms(2) by (simp add: exists_def)
    from tmp_allocatedD [OF tmp_allocated_overwrite [OF this assms(3)]] obtain fs2 where
      m2: "mkstemp (candidates rnd) (''_'' @ take 8 (hex (uuid4 rnd)) @ ''.pdf'') ''watermark_tmp''
        (gettempdir os) (directories os) (fmupd wm (Pdf (w # ws')) fs) = (Inr f, fs2)" by blast
    have "fmlookup (fmupd wm (Pdf (w # ws')) fs) wm = Some (Pdf (w # ws'))" by simp
    from duplicate_watermark_ok [OF m2 this] show ?thesis .
  qed
  with d assms(1) show ?thesis by (intro exI [of _ "replicate (nat n) w"]) simp
qed

theorem replicate_first_page_witness:
  "(0::int) \<le> 3
   \<and> fmlookup (fmupd (Path ''/tmp'' ''wm.pdf'') (Pdf [Drawn ''DRAFT'', Content ''second'']) fmempty)
       (Path ''/tmp'' ''wm.pdf'') = Some (Pdf [Drawn ''DRAFT'', Content ''second''])
   \<and> tmp_allocated \<lparr>gettempdir = ''/tmp'', directories = [''/tmp'']\<rparr>
       \<lparr>uuid4 = 0, candidates = [''k3x9_a0b'']\<rparr> ''watermark_tmp''
       (fmupd (Path ''/tmp'' ''wm.pdf'') (Pdf [Drawn ''DRAFT'', Content ''second'']) fmempty)
       (Path ''/tmp'' ''watermark_tmpk3x9_a0b_00000000.pdf'')
   \<and> duplicate_watermark (Path ''/tmp'' ''wm.pdf'') 3 None
       \<lparr>gettempdir = ''/tmp'', directories = [''/tmp'']\<rparr>
       \<lparr>uuid4 = 0, candidates = [''k3x9_a0b'']\<rparr>
       (fmupd (Path ''/tmp'' ''wm.pdf'') (Pdf [Drawn ''DRAFT'', Content ''second'']) fmempty)
     = (Inr (Path ''/tmp'' ''watermark_tmpk3x9_a0b_00000000.pdf''),
        fmupd (Path ''/tmp'' ''watermark_tmpk3x9_a0b_00000000.pdf'')
          (Pdf [Drawn ''DRAFT'', Drawn ''DRAFT'', Drawn ''DRAFT''])
          (fmupd (Path ''/tmp'' ''wm.pdf'') (Pdf [Drawn ''DRAFT'', Content ''second'']) fmempty))"
proof -
  let ?fs = "fmupd (Path ''/tmp'' ''wm.pdf'') (Pdf [Drawn ''DRAFT'', Content ''second'']) fmempty"
  have h1: "(0::int) \<le> 3" by simp
  have h2: "fmlookup ?fs (Path ''/tmp'' ''wm.pdf'') = Some (Pdf [Drawn ''DRAFT'', Content ''second''])"
    by simp
  have h3: "tmp_allocated \<lparr>gettempdir = ''/tmp'', directories = [''/tmp'']\<rparr>
       \<lparr>uuid4 = 0, candidates = [''k3x9_a0b'']\<rparr> ''watermark_tmp'' ?fs
       (Path ''/tmp'' ''watermark_tmpk3x9_a0b_00000000.pdf'')"
    by (simp add: tmp_allocated_def mkstemp_def TMP_MAX_def join_def unique_id_0 exists_def)
  have r: "replicate (nat 3) (Drawn ''DRAFT'') = [Drawn ''DRAFT'', Drawn ''DRAFT'', Drawn ''DRAFT'']"
    by (simp add: eval_nat_numeral)
  from replicate_first_page [OF h1 h2 h3] obtain doc where
    d: "duplicate_watermark (Path ''/tmp'' ''wm.pdf'') 3 None
       \<lparr>gettempdir = ''/tmp'', directories = [''/tmp'']\<rparr>
       \<lparr>uuid4 = 0, candidates = [''k3x9_a0b'']\<rparr> ?fs
      = (Inr (Path ''/tmp'' ''watermark_tmpk3x9_a0b_00000000.pdf''),
         fmupd (Path ''/tmp'' ''watermark_tmpk3x9_a0b_00000000.pdf'') (Pdf doc) ?fs)"
    and l: "int (length doc) = 3" and a: "\<forall>i<length doc. doc ! i = Drawn ''DRAFT''" by blast
  from l have "length doc = 3" by simp
  with a have "doc = replicate 3 (Drawn ''DRAFT'')"
    by (intro nth_equalityI) auto
  then have "doc = [Drawn ''DRAFT'', Drawn ''DRAFT'', Drawn ''DRAFT'']"
    by (simp add: eval_nat_numeral)
  with d h1 h2 h3 show ?thesis by simp
qed

text \<open>
  Claim C5: for an input document with \<open>P\<close> pages and a watermark document with at least
  one page, \<^const>\<open>add_watermark\<close> writes an output with \<open>P\<close> pages, page \<open>i\<close> being input page
  \<open>i\<close> merged with the watermark's page. The temporary file of the replicated watermark must
  be allocated, which is the environment's part (\<^const>\<open>tmp_allocated\<close>).
\<close>

theorem merge_keeps_page_count:
  assumes "fmlookup fs inp = Some (Pdf pages)"
    and "fmlookup fs wm = Some (Pdf (w # ws))"
    and "tmp_allocated os rnd ''watermark_tmp'' fs f"
  shows "\<exists>fs' out. add_watermark inp wm os rnd fs = (Inr (), fs') \<and>
           fmlookup fs' (new_file_path fs inp) = Some (Pdf out) \<and>
           length out = length pages \<and>
           (\<forall>i<length pages. out ! i = Merged (pages ! i) w)"
proof -
  from tmp_allocatedD [OF assms(3)] obtain fs1 where
    "mkstemp (candidates rnd) (''_'' @ take 8 (hex (uuid4 rnd)) @ ''.pdf'') ''watermark_tmp''
       (gettempdir os) (directories os) fs = (Inr f, fs1)" by blast
  from add_watermark_ok [OF this assms(2) assms(1)] show ?thesis by simp
qed

theorem merge_keeps_page_count_witness:
  "fmlookup (fmupd (Path ''docs'' ''report.pdf'') (Pdf [Content ''p1'', Content ''p2'', Content ''p3''])
       (fmupd (Path ''/tmp'' ''wm.pdf'') (Pdf [Drawn ''DRAFT'']) fmempty))
     (Path ''docs'' ''report.pdf'') = Some (Pdf [Content ''p1'', Content ''p2'', Content ''p3''])
   \<and> fmlookup (fmupd (Path ''docs'' ''report.pdf'') (Pdf [Content ''p1'', Content ''p2'', Content ''p3''])
       (fmupd (Path ''/tmp'' ''wm.pdf'') (Pdf [Drawn ''DRAFT'']) fmempty))
     (Path ''/tmp'' ''wm.pdf'') = Some (Pdf [Drawn ''DRAFT''])
   \<and> tmp_allocated \<lparr>gettempdir = ''/tmp'', directories = [''/tmp'']\<rparr>
       \<lparr>uuid4 = 0, candidates = [''k3x9_a0b'']\<rparr> ''watermark_tmp''
       (fmupd (Path ''docs'' ''report.pdf'') (Pdf [Content ''p1'', Content ''p2'', Content ''p3''])
         (fmupd (Path ''/tmp'' ''wm.pdf'') (Pdf [Drawn ''DRAFT'']) fmempty))
       (Path ''/tmp'' ''watermark_tmpk3x9_a0b_00000000.pdf'')
   \<and> (\<exists>fs' out.
        add_watermark (Path ''docs'' ''report.pdf'') (Path ''/tmp'' ''wm.pdf'')
          \<lparr>gettempdir = ''/tmp'', directories = [''/tmp'']\<rparr>
          \<lparr>uuid4 = 0, candidates = [''k3x9_a0b'']\<rparr>
          (fmupd (Path ''docs'' ''report.pdf'') (Pdf [Content ''p1'', Content ''p2'', Content ''p3''])
            (fmupd (Path ''/tmp'' ''wm.pdf'') (Pdf [Drawn ''DRAFT'']) fmempty)) = (Inr (), fs')
        \<and> fmlookup fs' (Path ''docs'' ''report_watermarked.pdf'') = Some (Pdf out)
        \<and> length out = 3)"
proof -
  let ?fs = "fmupd (Path ''docs'' ''report.pdf'') (Pdf [Content ''p1'', Content ''p2'', Content ''p3''])
       (fmupd (Path ''/tmp'' ''wm.pdf'') (Pdf [Drawn ''DRAFT'']) fmempty)"
  have h1: "fmlookup ?fs (Path ''docs'' ''report.pdf'')
      = Some (Pdf [Content ''p1'', Content ''p2'', Content ''p3''])" by simp
  have h2: "fmlookup ?fs (Path ''/tmp'' ''wm.pdf'') = Some (Pdf [Drawn ''DRAFT''])" by simp
  have h3: "tmp_allocated \<lparr>gettempdir = ''/tmp'', directories = [''/tmp'']\<rparr>
       \<lparr>uuid4 = 0, candidates = [''k3x9_a0b'']\<rparr> ''watermark_tmp'' ?fs
       (Path ''/tmp'' ''watermark_tmpk3x9_a0b_00000000.pdf'')"
    by (simp add: tmp_allocated_def mkstemp_def TMP_MAX_def join_def unique_id_0 exists_def)
  have n: "new_file_path ?fs (Path ''docs'' ''report.pdf'') = Path ''docs'' ''report_watermarked.pdf''"
    by (simp add: new_file_path_def ensure_new_file_def ensure_new_file_loop.simps exists_def stem_def)
  from merge_keeps_page_count [OF h1 h2 h3] n h1 h2 h3 show ?thesis by auto
qed

text \<open>
  Claim C6: \<^verbatim>\<open>resolve(p)\<close> returns a path at which nothing exists at call time, so the merger
  never writes its output over a file that existed. \<^const>\<open>ensure_new_file\<close> is a total
  function here: a file system holds finitely many entries and every candidate has a longer
  name than the one before, so the loop always ends. The path it returns does not exist.
  For \<^const>\<open>add_watermark\<close>: the path the output goes to does not exist in the file system
  the call starts from; whatever the outcome, every entry that existed before the call is
  still there with the same content; and when the call succeeds the output document is at the
  resolved path.
\<close>

theorem resolved_path_does_not_exist:
  "\<not> exists fs (ensure_new_file fs p) \<and>
   (add_watermark inp wm os rnd fs = (r, fs') \<longrightarrow>
      \<not> exists fs (new_file_path fs inp) \<and>
      (\<forall>q. exists fs q \<longrightarrow> fmlookup fs' q = fmlookup fs q) \<and>
      (r = Inr () \<longrightarrow> (\<exists>out. fmlookup fs' (new_file_path fs inp) = Some (Pdf out))))"
proof (intro conjI impI)
  show "\<not> exists fs (ensure_new_file fs p)"
    by (simp add: ensure_new_file_def ensure_loop_not_exists)
  show "\<not> exists fs (new_file_path fs inp)" by (rule new_file_path_fresh)
next
  assume a: "add_watermark inp wm os rnd fs = (r, fs')"
  from add_watermark_grows [OF a] show "\<forall>q. exists fs q \<longrightarrow> fmlookup fs' q = fmlookup fs q"
    by (simp add: grows_def)
  assume "r = Inr ()"
  with add_watermark_cases [OF a]
  show "\<exists>out. fmlookup fs' (new_file_path fs inp) = Some (Pdf out)" by auto
qed

theorem resolved_path_does_not_exist_witness:
  "add_watermark (Path ''docs'' ''report.pdf'') (Path ''/tmp'' ''wm.pdf'')
     \<lparr>gettempdir = ''/tmp'', directories = [''/tmp'']\<rparr>
     \<lparr>uuid4 = 0, candidates = [''k3x9_a0b'']\<rparr>
     (fmupd (Path ''docs'' ''report_watermarked.pdf'') Other
       (fmupd (Path ''docs'' ''report.pdf'') (Pdf [Content ''p1'', Content ''p2''])
         (fmupd (Path ''/tmp'' ''wm.pdf'') (Pdf [Drawn ''DRAFT'', Content ''other'']) fmempty)))
   = (Inr (),
      fmupd (Path ''docs'' ''report_watermarked_1.pdf'')
        (Pdf [Merged (Content ''p1'') (Drawn ''DRAFT''), Merged (Content ''p2'') (Drawn ''DRAFT'')])
       (fmupd (Path ''/tmp'' ''watermark_tmpk3x9_a0b_00000000.pdf'')
          (Pdf [Drawn ''DRAFT'', Drawn ''DRAFT''])
         (fmupd (Path ''docs'' ''report_watermarked.pdf'') Other
           (fmupd (Path ''docs'' ''report.pdf'') (Pdf [Content ''p1'', Content ''p2''])
             (fmupd (Path ''/tmp'' ''wm.pdf'') (Pdf [Drawn ''DRAFT'', Content ''other'']) fmempty)))))
   \<and> exists (fmupd (Path ''docs'' ''report_watermarked.pdf'') Other
       (fmupd (Path ''docs'' ''report.pdf'') (Pdf [Content ''p1'', Content ''p2''])
         (fmupd (Path ''/tmp'' ''wm.pdf'') (Pdf [Drawn ''DRAFT'', Content ''other'']) fmempty)))
       (Path ''docs'' ''report_watermarked.pdf'')
   \<and> new_file_path (fmupd (Path ''docs'' ''report_watermarked.pdf'') Other
       (fmupd (Path ''docs'' ''report.pdf'') (Pdf [Content ''p1'', Content ''p2''])
         (fmupd (Path ''/tmp'' ''wm.pdf'') (Pdf [Drawn ''DRAFT'', Content ''other'']) fmempty)))
       (Path ''docs'' ''report.pdf'') = Path ''docs'' ''report_watermarked_1.pdf''"
  using resolved_path_does_not_exist
    [of "fmupd (Path ''docs'' ''report_watermarked.pdf'') Other
       (fmupd (Path ''docs'' ''report.pdf'') (Pdf [Content ''p1'', Content ''p2''])
         (fmupd (Path ''/tmp'' ''wm.pdf'') (Pdf [Drawn ''DRAFT'', Content ''other'']) fmempty))"
       "Path ''docs'' ''report_watermarked.pdf''"
       "Path ''docs'' ''report.pdf''" "Path ''/tmp'' ''wm.pdf''"
       "\<lparr>gettempdir = ''/tmp'', directories = [''/tmp'']\<rparr>"
       "\<lparr>uuid4 = 0, candidates = [''k3x9_a0b'']\<rparr>"]
  by (simp add: add_watermark_def duplicate_watermark_def new_file_path_def ensure_new_file_def
      ensure_new_file_loop.simps mkstemp_def TMP_MAX_def join_def unique_id_0 exists_def
      PdfFileReader_def getNumPages_def getPage_def correct_pdf_path_def suffix_def stem_def
      str.simps digit_def Let_def)

text \<open>
  Claim C7: the pipeline leaves the input file unchanged. The model reads the input with
  \<^const>\<open>PdfFileReader\<close> only; every write of a run goes to a path that did not exist when
  it was chosen. So an input file that exists when \<^const>\<open>main\<close> (or \<^const>\<open>add_watermark\<close>
  alone) starts has the same content when it ends, whatever the outcome of the run; and the
  resolved output path is never the input path, in any file system.
\<close>

theorem input_file_is_not_modified:
  "(exists (files w) inp \<longrightarrow>
      fmlookup (files (snd (main a cwd_pdfs os rnd w))) inp = fmlookup (files w) inp) \<and>
   (exists fs inp \<longrightarrow>
      fmlookup (snd (add_watermark inp wm os r fs)) inp = fmlookup fs inp) \<and>
   new_file_path fs inp \<noteq> inp"
proof (intro conjI impI)
  assume e: "exists (files w) inp"
  have "grows (files w) (files (snd (main a cwd_pdfs os rnd w)))"
    by (rule main_grows [of a cwd_pdfs os rnd w "fst (main a cwd_pdfs os rnd w)"]) simp
  with e show "fmlookup (files (snd (main a cwd_pdfs os rnd w))) inp = fmlookup (files w) inp"
    by (simp add: grows_def)
next
  assume e: "exists fs inp"
  have "grows fs (snd (add_watermark inp wm os r fs))"
    by (rule add_watermark_grows [of inp wm os r fs "fst (add_watermark inp wm os r fs)"]) simp
  with e show "fmlookup (snd (add_watermark inp wm os r fs)) inp = fmlookup fs inp"
    by (simp add: grows_def)
next
  show "new_file_path fs inp \<noteq> inp" by (rule new_file_path_differs)
qed

theorem input_file_is_not_modified_witness:
  "exists (files \<lparr>files = (fmupd (Path ''docs'' ''report.pdf'') (Pdf [Content ''p1'', Content ''p2'']) fmempty), logged = []\<rparr>) (Path ''docs'' ''report.pdf'')
   \<and> fst (main \<lparr>watermark_text = ''DRAFT'', input_files = Some [Path ''docs'' ''report.pdf''], exclude = None\<rparr> [] \<lparr>gettempdir = ''/tmp'', directories = [''/tmp'']\<rparr> (\<lambda>k. \<lparr>uuid4 = 0, candidates = [''k3x9_a0b'']\<rparr>) \<lparr>files = (fmupd (Path ''docs'' ''report.pdf'') (Pdf [Content ''p1'', Content ''p2'']) fmempty), logged = []\<rparr>) = Inr ()
   \<and> fmlookup (files (snd (main \<lparr>watermark_text = ''DRAFT'', input_files = Some [Path ''docs'' ''report.pdf''], exclude = None\<rparr> [] \<lparr>gettempdir = ''/tmp'', directories = [''/tmp'']\<rparr> (\<lambda>k. \<lparr>uuid4 = 0, candidates = [''k3x9_a0b'']\<rparr>) \<lparr>files = (fmupd (Path ''docs'' ''report.pdf'') (Pdf [Content ''p1'', Content ''p2'']) fmempty), logged = []\<rparr>))) (Path ''docs'' ''report.pdf'')
       = Some (Pdf [Content ''p1'', Content ''p2''])
   \<and> exists (fmupd (Path ''docs'' ''report.pdf'') (Pdf [Content ''p1'', Content ''p2'']) fmempty) (Path ''docs'' ''report.pdf'')
   \<and> fmlookup (snd (add_watermark (Path ''docs'' ''report.pdf'') (Path ''/tmp'' ''wm.pdf'') \<lparr>gettempdir = ''/tmp'', directories = [''/tmp'']\<rparr> \<lparr>uuid4 = 0, candidates = [''k3x9_a0b'']\<rparr> (fmupd (Path ''docs'' ''report.pdf'') (Pdf [Content ''p1'', Content ''p2'']) fmempty))) (Path ''docs'' ''report.pdf'')
       = Some (Pdf [Content ''p1'', Content ''p2''])
   \<and> new_file_path (fmupd (Path ''docs'' ''report.pdf'') (Pdf [Content ''p1'', Content ''p2'']) fmempty) (Path ''docs'' ''report.pdf'') = Path ''docs'' ''report_watermarked.pdf''"
proof -
  have e: "exists (files \<lparr>files = (fmupd (Path ''docs'' ''report.pdf'') (Pdf [Content ''p1'', Content ''p2'']) fmempty), logged = []\<rparr>) (Path ''docs'' ''report.pdf'')"
    by (simp add: exists_def)
  have e2: "exists (fmupd (Path ''docs'' ''report.pdf'') (Pdf [Content ''p1'', Content ''p2'']) fmempty) (Path ''docs'' ''report.pdf'')"
    by (simp add: exists_def)
  have r: "fst (main \<lparr>watermark_text = ''DRAFT'', input_files = Some [Path ''docs'' ''report.pdf''], exclude = None\<rparr> [] \<lparr>gettempdir = ''/tmp'', directories = [''/tmp'']\<rparr> (\<lambda>k. \<lparr>uuid4 = 0, candidates = [''k3x9_a0b'']\<rparr>) \<lparr>files = (fmupd (Path ''docs'' ''report.pdf'') (Pdf [Content ''p1'', Content ''p2'']) fmempty), logged = []\<rparr>) = Inr ()"
    by (simp add: main_def select_files_def run_defs unique_id_0)
  have n: "new_file_path (fmupd (Path ''docs'' ''report.pdf'') (Pdf [Content ''p1'', Content ''p2'']) fmempty) (Path ''docs'' ''report.pdf'') = Path ''docs'' ''report_watermarked.pdf''"
    by (simp add: run_defs)
  from input_file_is_not_modified
    [of "\<lparr>files = (fmupd (Path ''docs'' ''report.pdf'') (Pdf [Content ''p1'', Content ''p2'']) fmempty), logged = []\<rparr>" "(Path ''docs'' ''report.pdf'')" "\<lparr>watermark_text = ''DRAFT'', input_files = Some [Path ''docs'' ''report.pdf''], exclude = None\<rparr>" "[]" "\<lparr>gettempdir = ''/tmp'', directories = [''/tmp'']\<rparr>" "(\<lambda>k. \<lparr>uuid4 = 0, candidates = [''k3x9_a0b'']\<rparr>)" "(fmupd (Path ''docs'' ''report.pdf'') (Pdf [Content ''p1'', Content ''p2'']) fmempty)"
        "Path ''/tmp'' ''wm.pdf''" "\<lparr>uuid4 = 0, candidates = [''k3x9_a0b'']\<rparr>"] e e2 r n
  show ?thesis by simp
qed

text \<open>
  Claim C8: a zero-page input does not crash the merger. Replication with page count 0 writes
  an empty watermark document, the page loop runs over no index, and a zero-page output
  document is written to the resolved path.
\<close>

theorem zero_page_input:
  assumes "fmlookup fs inp = Some (Pdf [])"
    and "fmlookup fs wm = Some (Pdf (w # ws))"
    and "tmp_allocated os rnd ''watermark_tmp'' fs f"
  shows "duplicate_watermark wm 0 None os rnd fs = (Inr f, fmupd f (Pdf []) fs) \<and>
         merge_pages [] [] [0..<getNumPages []] = Inr [] \<and>
         add_watermark inp wm os rnd fs
           = (Inr (), fmupd (new_file_path fs inp) (Pdf []) (fmupd f (Pdf []) fs))"
proof -
  from tmp_allocatedD [OF assms(3)] obtain fs1 where
    m: "mkstemp (candidates rnd) (''_'' @ take 8 (hex (uuid4 rnd)) @ ''.pdf'') ''watermark_tmp''
       (gettempdir os) (directories os) fs = (Inr f, fs1)" by blast
  from duplicate_watermark_ok [OF m assms(2), of 0] add_watermark_ok [OF m assms(2) assms(1)]
  show ?thesis by (simp add: getNumPages_def)
qed

theorem zero_page_input_witness:
  "fmlookup (fmupd (Path ''docs'' ''empty.pdf'') (Pdf [])
       (fmupd (Path ''/tmp'' ''wm.pdf'') (Pdf [Drawn ''DRAFT'']) fmempty))
     (Path ''docs'' ''empty.pdf'') = Some (Pdf [])
   \<and> fmlookup (fmupd (Path ''docs'' ''empty.pdf'') (Pdf [])
       (fmupd (Path ''/tmp'' ''wm.pdf'') (Pdf [Drawn ''DRAFT'']) fmempty))
     (Path ''/tmp'' ''wm.pdf'') = Some (Pdf [Drawn ''DRAFT''])
   \<and> tmp_allocated \<lparr>gettempdir = ''/tmp'', directories = [''/tmp'']\<rparr>
       \<lparr>uuid4 = 0, candidates = [''k3x9_a0b'']\<rparr> ''watermark_tmp''
       (fmupd (Path ''docs'' ''empty.pdf'') (Pdf [])
         (fmupd (Path ''/tmp'' ''wm.pdf'') (Pdf [Drawn ''DRAFT'']) fmempty))
       (Path ''/tmp'' ''watermark_tmpk3x9_a0b_00000000.pdf'')
   \<and> add_watermark (Path ''docs'' ''empty.pdf'') (Path ''/tmp'' ''wm.pdf'')
          \<lparr>gettempdir = ''/tmp'', directories = [''/tmp'']\<rparr>
          \<lparr>uuid4 = 0, candidates = [''k3x9_a0b'']\<rparr>
          (fmupd (Path ''docs'' ''empty.pdf'') (Pdf [])
            (fmupd (Path ''/tmp'' ''wm.pdf'') (Pdf [Drawn ''DRAFT'']) fmempty))
       = (Inr (),
          fmupd (Path ''docs'' ''empty_watermarked.pdf'') (Pdf [])
            (fmupd (Path ''/tmp'' ''watermark_tmpk3x9_a0b_00000000.pdf'') (Pdf [])
              (fmupd (Path ''docs'' ''empty.pdf'') (Pdf [])
                (fmupd (Path ''/tmp'' ''wm.pdf'') (Pdf [Drawn ''DRAFT'']) fmempty))))"
proof -
  let ?fs = "fmupd (Path ''docs'' ''empty.pdf'') (Pdf [])
       (fmupd (Path ''/tmp'' ''wm.pdf'') (Pdf [Drawn ''DRAFT'']) fmempty)"
  have h1: "fmlookup ?fs (Path ''docs'' ''empty.pdf'') = Some (Pdf [])" by simp
  have h2: "fmlookup ?fs (Path ''/tmp'' ''wm.pdf'') = Some (Pdf [Drawn ''DRAFT''])" by simp
  have h3: "tmp_allocated \<lparr>gettempdir = ''/tmp'', directories = [''/tmp'']\<rparr>
       \<lparr>uuid4 = 0, candidates = [''k3x9_a0b'']\<rparr> ''watermark_tmp'' ?fs
       (Path ''/tmp'' ''watermark_tmpk3x9_a0b_00000000.pdf'')"
    by (simp add: tmp_allocated_def mkstemp_def TMP_MAX_def join_def unique_id_0 exists_def)
  have n: "new_file_path ?fs (Path ''docs'' ''empty.pdf'') = Path ''docs'' ''empty_watermarked.pdf''"
    by (simp add: new_file_path_def ensure_new_file_def ensure_new_file_loop.simps exists_def stem_def)
  from zero_page_input [OF h1 h2 h3] n h1 h2 h3 show ?thesis by simp
qed

text \<open>
  Claim C9: the files processed are exactly the candidates whose base name is not in the
  exclude list. The candidates are the list given with \<^verbatim>\<open>-f\<close> when it has an entry, and the
  \<^verbatim>\<open>*.pdf\<close> files of the current directory otherwise; the filter compares \<^term>\<open>name f\<close>, the
  last component of the path. A run that completes logs \<^verbatim>\<open>Processing file\<close> for exactly the
  selected files, in order, and then \<^verbatim>\<open>All done!\<close>.
\<close>

theorem processed_files_are_candidates_not_excluded:
  "select_files a cwd_pdfs =
     [f \<leftarrow> (case input_files a of
              None \<Rightarrow> cwd_pdfs | Some [] \<Rightarrow> cwd_pdfs | Some (g # gs) \<Rightarrow> g # gs).
        name f \<notin> set (case exclude a of None \<Rightarrow> [] | Some xs \<Rightarrow> xs)] \<and>
   (main a cwd_pdfs os rnd w = (Inr (), w') \<longrightarrow>
      logged w' = logged w @ map Processing (select_files a cwd_pdfs) @ [AllDone])"
  using main_log [of a cwd_pdfs os rnd w "()" w'] by (simp add: select_files_eq)

theorem processed_files_are_candidates_not_excluded_witness:
  "main \<lparr>watermark_text = ''DRAFT'', input_files = None, exclude = Some [''b.pdf'']\<rparr> [Path ''.'' ''a.pdf'', Path ''.'' ''b.pdf''] \<lparr>gettempdir = ''/tmp'', directories = [''/tmp'']\<rparr> (\<lambda>k. \<lparr>uuid4 = 0, candidates = [''k3x9_a0b'']\<rparr>)
      \<lparr>files = (fmupd (Path ''.'' ''b.pdf'') (Pdf [Content ''b1'']) (fmupd (Path ''.'' ''a.pdf'') (Pdf [Content ''a1'']) fmempty)), logged = []\<rparr>
    = (Inr (), \<lparr>files = (fmupd (Path ''.'' ''a_watermarked.pdf'') (Pdf [Merged (Content ''a1'') (Drawn ''DRAFT'')])
      (fmupd (Path ''/tmp'' ''watermark_tmpk3x9_a0b_00000000.pdf'') (Pdf [Drawn ''DRAFT''])
      (fmupd (Path ''/tmp'' ''watermark_DRAFTk3x9_a0b_00000000.pdf'') (Pdf [Drawn ''DRAFT''])
      (fmupd (Path ''.'' ''b.pdf'') (Pdf [Content ''b1'']) (fmupd (Path ''.'' ''a.pdf'') (Pdf [Content ''a1'']) fmempty))))),
     logged = [Processing (Path ''.'' ''a.pdf''), AllDone]\<rparr>)
   \<and> select_files \<lparr>watermark_text = ''DRAFT'', input_files = None, exclude = Some [''b.pdf'']\<rparr>
       [Path ''.'' ''a.pdf'', Path ''.'' ''b.pdf''] = [Path ''.'' ''a.pdf'']
   \<and> logged \<lparr>files = (fmupd (Path ''.'' ''a_watermarked.pdf'') (Pdf [Merged (Content ''a1'') (Drawn ''DRAFT'')])
      (fmupd (Path ''/tmp'' ''watermark_tmpk3x9_a0b_00000000.pdf'') (Pdf [Drawn ''DRAFT''])
      (fmupd (Path ''/tmp'' ''watermark_DRAFTk3x9_a0b_00000000.pdf'') (Pdf [Drawn ''DRAFT''])
      (fmupd (Path ''.'' ''b.pdf'') (Pdf [Content ''b1'']) (fmupd (Path ''.'' ''a.pdf'') (Pdf [Content ''a1'']) fmempty))))),
     logged = [Processing (Path ''.'' ''a.pdf''), AllDone]\<rparr> = [Processing (Path ''.'' ''a.pdf''), AllDone]"
proof -
  have r: "main \<lparr>watermark_text = ''DRAFT'', input_files = None, exclude = Some [''b.pdf'']\<rparr> [Path ''.'' ''a.pdf'', Path ''.'' ''b.pdf''] \<lparr>gettempdir = ''/tmp'', directories = [''/tmp'']\<rparr> (\<lambda>k. \<lparr>uuid4 = 0, candidates = [''k3x9_a0b'']\<rparr>) \<lparr>files = (fmupd (Path ''.'' ''b.pdf'') (Pdf [Content ''b1'']) (fmupd (Path ''.'' ''a.pdf'') (Pdf [Content ''a1'']) fmempty)), logged = []\<rparr>
    = (Inr (), \<lparr>files = (fmupd (Path ''.'' ''a_watermarked.pdf'') (Pdf [Merged (Content ''a1'') (Drawn ''DRAFT'')])
      (fmupd (Path ''/tmp'' ''watermark_tmpk3x9_a0b_00000000.pdf'') (Pdf [Drawn ''DRAFT''])
      (fmupd (Path ''/tmp'' ''watermark_DRAFTk3x9_a0b_00000000.pdf'') (Pdf [Drawn ''DRAFT''])
      (fmupd (Path ''.'' ''b.pdf'') (Pdf [Content ''b1'']) (fmupd (Path ''.'' ''a.pdf'') (Pdf [Content ''a1'']) fmempty))))),
     logged = [Processing (Path ''.'' ''a.pdf''), AllDone]\<rparr>)"
    by (simp add: main_def select_files_def run_defs unique_id_0)
  from processed_files_are_candidates_not_excluded
    [of "\<lparr>watermark_text = ''DRAFT'', input_files = None, exclude = Some [''b.pdf'']\<rparr>" "[Path ''.'' ''a.pdf'', Path ''.'' ''b.pdf'']" "\<lparr>gettempdir = ''/tmp'', directories = [''/tmp'']\<rparr>" "(\<lambda>k. \<lparr>uuid4 = 0, candidates = [''k3x9_a0b'']\<rparr>)" "\<lparr>files = (fmupd (Path ''.'' ''b.pdf'') (Pdf [Content ''b1'']) (fmupd (Path ''.'' ''a.pdf'') (Pdf [Content ''a1'']) fmempty)), logged = []\<rparr>"] r
  show ?thesis by simp
qed

text \<open>
  Claim C10: \<^verbatim>\<open>-f\<close> with no argument behaves as if the flag were omitted: the same files are
  selected, namely the \<^verbatim>\<open>*.pdf\<close> files of the current directory minus the excluded names, and
  the whole run is the same.
\<close>

theorem empty_input_files_is_the_default:
  "select_files (a\<lparr>input_files := Some []\<rparr>) cwd_pdfs
     = select_files (a\<lparr>input_files := None\<rparr>) cwd_pdfs \<and>
   select_files (a\<lparr>input_files := Some []\<rparr>) cwd_pdfs
     = [f \<leftarrow> cwd_pdfs. name f \<notin> set (case exclude a of None \<Rightarrow> [] | Some xs \<Rightarrow> xs)] \<and>
   main (a\<lparr>input_files := Some []\<rparr>) cwd_pdfs os rnd w
     = main (a\<lparr>input_files := None\<rparr>) cwd_pdfs os rnd w"
  by (simp add: main_def select_files_def Let_def)

end
